(* ===== verification/Prelude.thy ===== *)
theory Prelude
  imports Complex_Main "HOL-Library.Multiset"
begin

text \<open>
  Shared vocabulary of the development: the Python exceptions the modelled code can
  raise, the result type of fallible code, the named collection of characteristic
  equations of the modelled Python builtins, and generic lemmas on lists and sums
  that the component theories share.
\<close>

section \<open>Python exceptions and results\<close>

text \<open>
  The exceptions that the sources raise or let escape: \<open>IOError\<close> from \<open>open\<close>,
  \<open>IndexError\<close> from indexing a list returned by \<open>str.split\<close>, \<open>ValueError\<close> from
  \<open>int()\<close> and \<open>float()\<close>, \<open>OverflowError\<close> and \<open>ZeroDivisionError\<close> from the
  true division of two ints, and the plain \<open>Exception\<close> that \<open>main\<close> raises with a
  message.
\<close>

datatype py_error = IOError | IndexError | ValueError | OverflowError | ZeroDivisionError
  | PyException string

type_synonym 'a py_result = "py_error + 'a"

text \<open>A Python float: the exact value of the decimal literal it was parsed from,
  an infinity (\<open>True\<close> for the negative one), or NaN.\<close>

datatype py_float = FloatNum rat | FloatInf bool | FloatNaN

named_theorems py_simps "characteristic equations of the modelled Python builtins"

text \<open>Exception propagation: \<open>py_bind r f\<close> continues with \<open>f\<close> on a value
  and passes an exception on unchanged. \<open>py_index xs i\<close> is \<open>xs[i]\<close> for
  \<open>i \<ge> 0\<close>, raising \<open>IndexError\<close> out of range.\<close>

definition py_bind :: "'a py_result \<Rightarrow> ('a \<Rightarrow> 'b py_result) \<Rightarrow> 'b py_result" where
  "py_bind r f = (case r of Inl e \<Rightarrow> Inl e | Inr x \<Rightarrow> f x)"

definition py_index :: "'a list \<Rightarrow> nat \<Rightarrow> 'a py_result" where
  "py_index xs i = (if i < length xs then Inr (xs ! i) else Inl IndexError)"

text \<open>Applying a raising function to each element in order, as \<open>sorted\<close> does when
  it computes the key of every element before sorting: the first exception ends it.\<close>

fun py_map :: "('a \<Rightarrow> 'b py_result) \<Rightarrow> 'a list \<Rightarrow> 'b list py_result" where
  "py_map f [] = Inr []"
| "py_map f (x # xs) = py_bind (f x) (\<lambda>y. py_bind (py_map f xs) (\<lambda>ys. Inr (y # ys)))"

section \<open>Python builtins on lists\<close>

text \<open>
  \<open>sorted(xs, key=key, reverse=True)\<close>: CPython's \<open>list.sort\<close> with
  \<open>reverse=True\<close> reverses the list, sorts it stably by the key in ascending order,
  and reverses the result, so that elements with equal keys keep their original
  order. \<open>sort_key\<close> is HOL's stable sort; the stable sorted permutation is
  unique, so the sorting algorithm itself does not matter.
  \<open>first_seen\<close> is the list of distinct elements in order of first occurrence
  (the key order of a dict filled from the list).
\<close>

definition py_sorted_rev :: "('a \<Rightarrow> 'b::linorder) \<Rightarrow> 'a list \<Rightarrow> 'a list" where
  "py_sorted_rev key xs = rev (sort_key key (rev xs))"

definition first_seen :: "'a list \<Rightarrow> 'a list" where
  "first_seen xs = rev (remdups (rev xs))"

lemma mset_py_sorted_rev [simp]: "mset (py_sorted_rev f xs) = mset xs"
  by (simp add: py_sorted_rev_def)

lemma set_py_sorted_rev [simp]: "set (py_sorted_rev f xs) = set xs"
  by (simp add: py_sorted_rev_def)

lemma distinct_py_sorted_rev [simp]: "distinct (py_sorted_rev f xs) = distinct xs"
  by (simp add: py_sorted_rev_def)

lemma length_py_sorted_rev [simp]: "length (py_sorted_rev f xs) = length xs"
  by (simp add: py_sorted_rev_def)

lemma py_sorted_rev_Nil [simp]: "py_sorted_rev f [] = []"
  by (simp add: py_sorted_rev_def)

lemma sorted_py_sorted_rev: "sorted_wrt (\<lambda>x y. f y \<le> f x) (py_sorted_rev f xs)"
proof -
  have "sorted (map f (sort_key f (rev xs)))" by simp
  then show ?thesis by (simp add: py_sorted_rev_def sorted_wrt_rev sorted_map)
qed

lemma py_sorted_rev_stable:
  "filter (\<lambda>y. f y = k) (py_sorted_rev f xs) = filter (\<lambda>y. f y = k) xs"
  by (simp add: py_sorted_rev_def rev_filter [symmetric] sort_key_stable)

lemma sorted_wrt_take_drop:
  "sorted_wrt R ys \<Longrightarrow> x \<in> set (take n ys) \<Longrightarrow> y \<in> set (drop n ys) \<Longrightarrow> R x y"
  by (metis append_take_drop_id sorted_wrt_append)

lemma first_seen_snoc [simp]:
  "first_seen (xs @ [x]) = (if x \<in> set xs then first_seen xs else first_seen xs @ [x])"
  by (simp add: first_seen_def)

lemma first_seen_Nil [simp]: "first_seen [] = []"
  by (simp add: first_seen_def)

lemma set_first_seen [simp]: "set (first_seen xs) = set xs"
  by (simp add: first_seen_def)

lemma distinct_first_seen [simp]: "distinct (first_seen xs)"
  by (simp add: first_seen_def)

lemma first_seen_distinct: "distinct xs \<Longrightarrow> first_seen xs = xs"
  by (simp add: first_seen_def distinct_remdups_id)


lemma first_seen_append_snoc:
  "first_seen (xs @ ys @ [y]) = (if y \<in> set xs \<union> set ys then first_seen (xs @ ys) else first_seen (xs @ ys) @ [y])"
  using first_seen_snoc [of "xs @ ys" y] by simp

section \<open>Generic lemmas\<close>

lemma py_bind_simps [simp]: "py_bind (Inl e) f = Inl e" "py_bind (Inr x) f = f x"
  by (simp_all add: py_bind_def)

lemma py_index_Inr: "py_index xs i = Inr x \<Longrightarrow> x \<in> set xs"
  by (auto simp: py_index_def split: if_splits)

lemma insort_key_map: "insort_key f (h x) (map h xs) = map h (insort_key (\<lambda>y. f (h y)) x xs)"
  by (induction xs) auto

lemma sort_key_map: "sort_key f (map h xs) = map h (sort_key (\<lambda>y. f (h y)) xs)"
  by (induction xs) (simp_all add: insort_key_map)

lemma py_sorted_rev_map: "py_sorted_rev f (map h xs) = map h (py_sorted_rev (\<lambda>y. f (h y)) xs)"
  by (simp add: py_sorted_rev_def rev_map sort_key_map)

lemma py_map_one_error:
  assumes "\<forall>x \<in> set xs. f x = Inl e \<or> f x = Inr (g x)"
  shows "py_map f xs = (if list_ex (\<lambda>x. f x = Inl e) xs then Inl e else Inr (map g xs))"
  using assms by (induction xs) auto

lemma py_bind_InrE:
  "py_bind r f = Inr y \<Longrightarrow> (\<And>x. r = Inr x \<Longrightarrow> f x = Inr y \<Longrightarrow> P) \<Longrightarrow> P"
  by (cases r) simp_all

lemma py_bind_Inr_iff: "py_bind r f = Inr y \<longleftrightarrow> (\<exists>x. r = Inr x \<and> f x = Inr y)"
  by (cases r) simp_all


lemma sum_list_filter_split:
  fixes g :: "'a \<Rightarrow> 'b::comm_monoid_add"
  shows "sum_list (map g (filter P xs)) + sum_list (map g (filter (\<lambda>x. \<not> P x) xs))
         = sum_list (map g xs)"
  by (induction xs) (simp_all add: ac_simps)

lemma sum_list_map_mset:
  "sum_list (map g xs) = (\<Sum>x \<in># mset xs. g x)"
  by (simp add: sum_mset_sum_list flip: mset_map)

lemma length_filter_three:
  "(\<And>x. x \<in> set xs \<Longrightarrow> (P x \<and> \<not> Q x \<and> \<not> R x) \<or> (\<not> P x \<and> Q x \<and> \<not> R x) \<or> (\<not> P x \<and> \<not> Q x \<and> R x))
   \<Longrightarrow> length (filter P xs) + length (filter Q xs) + length (filter R xs) = length xs"
  by (induction xs) auto

end
