(* ===== verification/PyString.thy ===== *)
theory PyString
  imports Prelude
begin

text \<open>
  The Python \<open>str\<close> builtins the sources call: \<open>str.isalpha\<close>, \<open>str.isspace\<close> and
  \<open>str.lower\<close> on one character, \<open>str.split()\<close> without a separator,
  \<open>str.split(sep)\<close> with a one-character separator, \<open>str.strip()\<close> and
  \<open>sep.join\<close>. A Python string is a sequence of code points; the model reads an
  Isabelle \<open>char\<close> as the code point \<open>of_char c\<close> in \<open>0..255\<close> (Latin-1), and the
  character classes below are CPython's Unicode tables restricted to that range.
\<close>

section \<open>Character classes (Latin-1)\<close>

text \<open>\<open>str.isspace\<close>: TAB..CR, the information separators 0x1C..0x1F, SPACE, NEL, NBSP.\<close>

definition py_isspace :: "char \<Rightarrow> bool" where
  "py_isspace c = (let n = (of_char c :: nat) in
     (9 \<le> n \<and> n \<le> 13) \<or> (28 \<le> n \<and> n \<le> 32) \<or> n = 133 \<or> n = 160)"

text \<open>\<open>str.isalpha\<close>: ASCII letters, ordinal indicators, micro sign, and the Latin-1
  letters except the multiplication and division signs.\<close>

definition py_isalpha :: "char \<Rightarrow> bool" where
  "py_isalpha c = (let n = (of_char c :: nat) in
     (65 \<le> n \<and> n \<le> 90) \<or> (97 \<le> n \<and> n \<le> 122) \<or> n = 170 \<or> n = 181 \<or> n = 186 \<or>
     (192 \<le> n \<and> n \<le> 214) \<or> (216 \<le> n \<and> n \<le> 246) \<or> (248 \<le> n \<and> n \<le> 255))"

text \<open>\<open>str.lower\<close> on one character: the upper-case letters A..Z and
  0xC0..0xDE (without 0xD7) move up by 32; every other character is unchanged.\<close>

definition py_isupper_l1 :: "nat \<Rightarrow> bool" where
  "py_isupper_l1 n = ((65 \<le> n \<and> n \<le> 90) \<or> (192 \<le> n \<and> n \<le> 222 \<and> n \<noteq> 215))"

definition py_lower :: "char \<Rightarrow> char" where
  "py_lower c = (let n = (of_char c :: nat) in
     if py_isupper_l1 n then char_of (n + 32) else c)"

section \<open>Splitting and joining\<close>

text \<open>
  \<open>str.split()\<close> without a separator (CPython \<open>split_whitespace\<close>): scan the
  string, skip runs of whitespace, and emit each maximal run of other characters.
  The scan keeps the characters of the current token, most recent first.
\<close>

fun split_ws_scan :: "string \<Rightarrow> string \<Rightarrow> string list" where
  "split_ws_scan cur [] = (if cur = [] then [] else [rev cur])"
| "split_ws_scan cur (c # cs) =
     (if py_isspace c
      then (if cur = [] then split_ws_scan [] cs else rev cur # split_ws_scan [] cs)
      else split_ws_scan (c # cur) cs)"

definition py_split_ws :: "string \<Rightarrow> string list" where
  "py_split_ws s = split_ws_scan [] s"

text \<open>\<open>str.split(sep)\<close> with a one-character separator: every occurrence of the
  separator ends a field, empty fields included, so the result is never empty.\<close>

fun split_sep_scan :: "char \<Rightarrow> string \<Rightarrow> string \<Rightarrow> string list" where
  "split_sep_scan d cur [] = [rev cur]"
| "split_sep_scan d cur (c # cs) =
     (if c = d then rev cur # split_sep_scan d [] cs else split_sep_scan d (c # cur) cs)"

definition py_split_sep :: "char \<Rightarrow> string \<Rightarrow> string list" where
  "py_split_sep d s = split_sep_scan d [] s"

text \<open>\<open>sep.join(parts)\<close>.\<close>

fun py_join :: "string \<Rightarrow> string list \<Rightarrow> string" where
  "py_join sep [] = []"
| "py_join sep [w] = w"
| "py_join sep (w # ws) = w @ sep @ py_join sep ws"

text \<open>\<open>str.strip()\<close> without arguments: whitespace removed at both ends.\<close>

definition py_strip :: "string \<Rightarrow> string" where
  "py_strip s = rev (dropWhile py_isspace (rev (dropWhile py_isspace s)))"

text \<open>Iterating over a text file yields its lines, each with its newline character
  except possibly the last (text mode with universal newlines has already turned \<open>\r\n\<close>
  and a lone \<open>\r\<close> into \<open>\n\<close>, so the contents are what reading returns).\<close>

fun lines_scan :: "string \<Rightarrow> string \<Rightarrow> string list" where
  "lines_scan cur [] = (if cur = [] then [] else [rev cur])"
| "lines_scan cur (c # cs) =
     (if c = CHR ''\<newline>'' then rev (c # cur) # lines_scan [] cs else lines_scan (c # cur) cs)"

definition py_lines :: "string \<Rightarrow> string list" where
  "py_lines s = lines_scan [] s"

section \<open>Lemmas on characters\<close>

lemma of_char_py_lower:
  "(of_char (py_lower c) :: nat) =
     (if py_isupper_l1 (of_char c) then of_char c + 32 else of_char c)"
  by (auto simp: py_lower_def py_isupper_l1_def Let_def)

lemma py_lower_idem [simp]: "py_lower (py_lower c) = py_lower c"
  by (auto simp: py_lower_def of_char_py_lower py_isupper_l1_def Let_def)

lemma py_isalpha_py_lower [simp]: "py_isalpha (py_lower c) = py_isalpha c"
  by (auto simp: py_isalpha_def of_char_py_lower py_isupper_l1_def Let_def)

lemma py_isspace_py_lower [simp]: "py_isspace (py_lower c) = py_isspace c"
  by (auto simp: py_isspace_def of_char_py_lower py_isupper_l1_def Let_def)

lemma py_isalpha_not_space: "py_isalpha c \<Longrightarrow> \<not> py_isspace c"
  by (auto simp: py_isalpha_def py_isspace_def Let_def)

section \<open>Lemmas on \<open>str.split()\<close>\<close>

lemma split_ws_scan_tokens:
  "(\<forall>c \<in> set cur. \<not> py_isspace c) \<Longrightarrow> w \<in> set (split_ws_scan cur s) \<Longrightarrow>
     w \<noteq> [] \<and> (\<forall>c \<in> set w. \<not> py_isspace c)"
proof (induction s arbitrary: cur)
  case Nil
  then show ?case by (simp split: if_split_asm)
next
  case (Cons c cs)
  show ?case
  proof (cases "py_isspace c")
    case True
    with Cons.prems have "w \<in> set (split_ws_scan [] cs) \<or> (cur \<noteq> [] \<and> w = rev cur)"
      by (auto split: if_split_asm)
    with Cons.IH [of "[]"] Cons.prems(1) show ?thesis by auto
  next
    case False
    with Cons.prems have "w \<in> set (split_ws_scan (c # cur) cs)" by simp
    with Cons.IH [of "c # cur"] Cons.prems(1) False show ?thesis by simp
  qed
qed

lemma py_split_ws_tokens [py_simps]:
  "w \<in> set (py_split_ws s) \<Longrightarrow> w \<noteq> [] \<and> (\<forall>c \<in> set w. \<not> py_isspace c)"
  using split_ws_scan_tokens [of "[]" w s] by (simp add: py_split_ws_def)

lemma concat_split_ws_scan:
  "concat (split_ws_scan cur s) = rev cur @ filter (\<lambda>c. \<not> py_isspace c) s"
  by (induction s arbitrary: cur) simp_all

lemma concat_py_split_ws [py_simps]:
  "concat (py_split_ws s) = filter (\<lambda>c. \<not> py_isspace c) s"
  by (simp add: py_split_ws_def concat_split_ws_scan)

lemma split_ws_scan_append_space:
  "py_isspace c \<Longrightarrow> split_ws_scan cur (xs @ c # ys) = split_ws_scan cur xs @ split_ws_scan [] ys"
  by (induction xs arbitrary: cur) simp_all

lemma py_split_ws_append_space [py_simps]:
  "py_isspace c \<Longrightarrow> py_split_ws (xs @ c # ys) = py_split_ws xs @ py_split_ws ys"
  by (simp add: py_split_ws_def split_ws_scan_append_space)

lemma split_ws_scan_word:
  "(\<forall>c \<in> set w. \<not> py_isspace c) \<Longrightarrow> cur @ w \<noteq> [] \<Longrightarrow> split_ws_scan cur w = [rev cur @ w]"
  by (induction w arbitrary: cur) simp_all

lemma py_split_ws_word [py_simps]:
  "w \<noteq> [] \<Longrightarrow> (\<forall>c \<in> set w. \<not> py_isspace c) \<Longrightarrow> py_split_ws w = [w]"
  by (simp add: py_split_ws_def split_ws_scan_word)

lemma py_split_ws_Nil [simp]: "py_split_ws [] = []"
  by (simp add: py_split_ws_def)

lemma py_lower_space: "py_isspace c \<Longrightarrow> py_lower c = c"
  by (auto simp: py_isspace_def py_lower_def py_isupper_l1_def Let_def)

lemma set_py_join: "set (py_join sep ws) \<subseteq> set sep \<union> (\<Union>w \<in> set ws. set w)"
  by (induction sep ws rule: py_join.induct) auto

text \<open>Splitting a space-joined list of tokens gives the tokens back.\<close>

lemma py_split_ws_join_space [py_simps]:
  "py_isspace c \<Longrightarrow> (\<forall>w \<in> set ws. w \<noteq> [] \<and> (\<forall>x \<in> set w. \<not> py_isspace x)) \<Longrightarrow>
     py_split_ws (py_join [c] ws) = ws"
  by (induction "[c]" ws rule: py_join.induct) (simp_all add: py_split_ws_word py_split_ws_append_space)

section \<open>Lemmas on lines and fields\<close>

lemma lines_scan_line:
  "CHR ''\<newline>'' \<notin> set l \<Longrightarrow> lines_scan cur (l @ CHR ''\<newline>'' # r) = (rev cur @ l @ [CHR ''\<newline>'']) # lines_scan [] r"
  by (induction l arbitrary: cur) auto

lemma py_lines_concat:
  "(\<forall>l \<in> set ls. CHR ''\<newline>'' \<notin> set l) \<Longrightarrow>
   py_lines (concat (map (\<lambda>l. l @ [CHR ''\<newline>'']) ls)) = map (\<lambda>l. l @ [CHR ''\<newline>'']) ls"
  by (induction ls) (simp_all add: py_lines_def lines_scan_line)

lemma split_sep_scan_field:
  "d \<notin> set w \<Longrightarrow> split_sep_scan d cur (w @ d # r) = (rev cur @ w) # split_sep_scan d [] r"
  by (induction w arbitrary: cur) auto

lemma split_sep_scan_last:
  "d \<notin> set w \<Longrightarrow> split_sep_scan d cur w = [rev cur @ w]"
  by (induction w arbitrary: cur) auto

lemma py_split_sep_join:
  "ws \<noteq> [] \<Longrightarrow> (\<forall>w \<in> set ws. d \<notin> set w) \<Longrightarrow> py_split_sep d (py_join [d] ws) = ws"
proof (induction "[d]" ws rule: py_join.induct)
  case 1
  then show ?case by simp
next
  case (2 w)
  then show ?case by (simp add: py_split_sep_def split_sep_scan_last)
next
  case (3 w v vs)
  then show ?case by (simp add: py_split_sep_def split_sep_scan_field)
qed

lemma split_sep_scan_no_sep:
  "d \<notin> set cur \<Longrightarrow> w \<in> set (split_sep_scan d cur s) \<Longrightarrow> d \<notin> set w"
  by (induction d cur s rule: split_sep_scan.induct) (auto split: if_splits)

lemma py_split_sep_no_sep: "w \<in> set (py_split_sep d s) \<Longrightarrow> d \<notin> set w"
  unfolding py_split_sep_def by (rule split_sep_scan_no_sep) simp_all

lemma length_split_sep_scan: "length (split_sep_scan d cur s) = Suc (length (filter ((=) d) s))"
  by (induction s arbitrary: cur) auto

lemma length_py_split_sep: "length (py_split_sep d s) = Suc (length (filter ((=) d) s))"
  by (simp add: py_split_sep_def length_split_sep_scan)

end
