(* ===== verification/PyNum.thy ===== *)
theory PyNum
  imports PyString
begin

text \<open>
  The numeric builtins the readers call on a field: \<open>int(s)\<close> and \<open>float(s)\<close>,
  and \<open>str(n)\<close> for the integers \<open>write_report\<close> prints. Both parsers accept
  surrounding whitespace (CPython strips \<open>str.isspace\<close> characters), an optional sign,
  and digit groups separated by single underscores (PEP 515); anything else raises
  \<open>ValueError\<close>. \<open>float\<close> also accepts a fraction, an exponent, and \<open>inf\<close>,
  \<open>infinity\<close>, \<open>nan\<close> in any case. A float is the exact value of its literal
  (rounding to binary64 is not modelled).
\<close>

definition py_isdigit :: "char \<Rightarrow> bool" where
  "py_isdigit c = (let n = (of_char c :: nat) in 48 \<le> n \<and> n \<le> 57)"

definition digit_val :: "char \<Rightarrow> nat" where
  "digit_val c = of_char c - 48"

text \<open>A digit group \<open>digit (["_"] digit)*\<close>, scanned from the left: the value so
  far, the number of digits so far, and the rest of the string at the first character
  that cannot continue the group. An underscore continues it only between two digits.\<close>

fun digits_scan :: "nat \<Rightarrow> nat \<Rightarrow> string \<Rightarrow> nat \<times> nat \<times> string" where
  "digits_scan n k [] = (n, k, [])"
| "digits_scan n k (c # cs) =
     (if py_isdigit c then digits_scan (10 * n + digit_val c) (Suc k) cs
      else if c = CHR ''_'' \<and> 0 < k \<and> cs \<noteq> [] \<and> py_isdigit (hd cs) then digits_scan n k cs
      else (n, k, c # cs))"

text \<open>An optional sign: \<open>True\<close> for a minus sign.\<close>

definition split_sign :: "string \<Rightarrow> bool \<times> string" where
  "split_sign s = (case s of
      c # r \<Rightarrow> (if c = CHR ''-'' then (True, r) else if c = CHR ''+'' then (False, r) else (False, s))
    | [] \<Rightarrow> (False, []))"

definition py_int_of_str :: "string \<Rightarrow> int py_result" where
  "py_int_of_str s = (let (neg, body) = split_sign (py_strip s); (n, k, rest) = digits_scan 0 0 body
     in if 0 < k \<and> rest = [] then Inr (if neg then - int n else int n) else Inl ValueError)"

text \<open>\<open>float(s)\<close>: \<open>[sign] (digits [. [digits]] | . digits) [(e|E) [sign] digits]\<close>
  or \<open>[sign] (inf | infinity | nan)\<close>.\<close>

definition py_exponent :: "string \<Rightarrow> int option" where
  "py_exponent s = (case s of
      [] \<Rightarrow> Some 0
    | c # r \<Rightarrow> (if c = CHR ''e'' \<or> c = CHR ''E''
                then (let (neg, body) = split_sign r; (n, k, rest) = digits_scan 0 0 body
                      in if 0 < k \<and> rest = [] then Some (if neg then - int n else int n) else None)
                else None))"

definition py_float_of_str :: "string \<Rightarrow> py_float py_result" where
  "py_float_of_str s = (let (neg, body) = split_sign (py_strip s); low = map py_lower body in
     if low = ''inf'' \<or> low = ''infinity'' then Inr (FloatInf neg)
     else if low = ''nan'' then Inr FloatNaN
     else (let (a, ka, r1) = digits_scan 0 0 body;
               (b, kb, r2) = (case r1 of c # r \<Rightarrow> if c = CHR ''.'' then digits_scan 0 0 r else (0, 0, r1)
                                      | [] \<Rightarrow> (0, 0, []))
           in if ka = 0 \<and> kb = 0 then Inl ValueError
              else (case py_exponent r2 of
                      None \<Rightarrow> Inl ValueError
                    | Some e \<Rightarrow>
                        (let m = (of_nat (a * 10 ^ kb + b) :: rat) / 10 ^ kb * power_int 10 e
                         in Inr (FloatNum (if neg then - m else m))))))"

text \<open>\<open>str(n)\<close> for an integer: the decimal digits, with a minus sign when negative.\<close>

fun nat_digits :: "nat \<Rightarrow> string" where
  "nat_digits n = (if n < 10 then [char_of (48 + n)] else nat_digits (n div 10) @ [char_of (48 + n mod 10)])"

declare nat_digits.simps [simp del]

definition py_str_int :: "int \<Rightarrow> string" where
  "py_str_int i = (if i < 0 then CHR ''-'' # nat_digits (nat (- i)) else nat_digits (nat i))"

section \<open>Lemmas\<close>

lemma digits_scan_digits:
  "(\<forall>c \<in> set ds. py_isdigit c) \<Longrightarrow>
   digits_scan n k (ds @ r) = digits_scan (foldl (\<lambda>a c. 10 * a + digit_val c) n ds) (k + length ds) r"
  by (induction ds arbitrary: n k) simp_all

lemma nat_digits_eq:
  "nat_digits m = (if m < 10 then [char_of (48 + m)] else nat_digits (m div 10) @ [char_of (48 + m mod 10)])"
  by (rule nat_digits.simps)

lemma digit_char: "d < 10 \<Longrightarrow> py_isdigit (char_of (48 + d)) \<and> digit_val (char_of (48 + d)) = d"
  by (simp add: py_isdigit_def digit_val_def)

lemma nat_digits_digits: "\<forall>c \<in> set (nat_digits m). py_isdigit c"
proof (induction m rule: nat_digits.induct)
  case (1 m)
  then show ?case by (subst nat_digits_eq) (simp add: digit_char)
qed

lemma nat_digits_value:
  "foldl (\<lambda>a c. 10 * a + digit_val c) n (nat_digits m) = n * 10 ^ length (nat_digits m) + m"
proof (induction m arbitrary: n rule: nat_digits.induct)
  case (1 m)
  show ?case
  proof (cases "m < 10")
    case True
    then have "nat_digits m = [char_of (48 + m)]" by (subst nat_digits_eq) simp
    with True show ?thesis by (simp add: digit_char)
  next
    case False
    then have "nat_digits m = nat_digits (m div 10) @ [char_of (48 + m mod 10)]"
      by (subst nat_digits_eq) simp
    with False "1.IH" show ?thesis by (simp add: digit_char algebra_simps)
  qed
qed

lemma nat_digits_ne: "nat_digits m \<noteq> []"
  by (subst nat_digits_eq) simp

lemma digits_scan_nat_digits:
  "digits_scan 0 0 (nat_digits m) = (m, length (nat_digits m), [])"
  using digits_scan_digits [OF nat_digits_digits, of 0 0 m "[]"] nat_digits_value [of 0 m] by simp

lemma py_isdigit_not_space: "py_isdigit c \<Longrightarrow> \<not> py_isspace c"
  by (auto simp: py_isdigit_def py_isspace_def Let_def)

lemma py_strip_id:
  assumes "s \<noteq> []" and "\<not> py_isspace (hd s)" and "\<not> py_isspace (last s)"
  shows "py_strip s = s"
proof -
  have l: "dropWhile py_isspace s = s" using assms(1,2) by (cases s) auto
  have r: "dropWhile py_isspace (rev s) = rev s" using assms(1,3) by (cases "rev s") (auto simp: last_rev [symmetric])
  show ?thesis by (simp add: py_strip_def l r)
qed

lemma hd_nat_digits: "py_isdigit (hd (nat_digits m))"
  using nat_digits_digits [of m] nat_digits_ne [of m] by simp

lemma last_nat_digits: "py_isdigit (last (nat_digits m))"
  using nat_digits_digits [of m] nat_digits_ne [of m] by simp

text \<open>\<open>int(str(i)) == i\<close>.\<close>

lemma py_int_of_str_py_str_int: "py_int_of_str (py_str_int i) = Inr i"
proof -
  have minus: "\<not> py_isspace (CHR ''-'')" by (simp add: py_isspace_def)
  have strip: "py_strip (py_str_int i) = py_str_int i"
    by (rule py_strip_id) (auto simp: py_str_int_def minus hd_nat_digits last_nat_digits
        py_isdigit_not_space nat_digits_ne)
  have hd_ok: "hd (nat_digits m) \<noteq> CHR ''-'' \<and> hd (nat_digits m) \<noteq> CHR ''+''" for m
    using hd_nat_digits [of m] by (auto simp: py_isdigit_def)
  have sign: "split_sign (py_str_int i) = (i < 0, nat_digits (nat \<bar>i\<bar>))"
  proof (cases "i < 0")
    case True
    then show ?thesis by (simp add: split_sign_def py_str_int_def)
  next
    case False
    obtain c r where cr: "nat_digits (nat i) = c # r"
      using nat_digits_ne [of "nat i"] by (cases "nat_digits (nat i)") auto
    have "c \<noteq> CHR ''-'' \<and> c \<noteq> CHR ''+''" using hd_ok [of "nat i"] cr by simp
    with False cr show ?thesis by (simp add: split_sign_def py_str_int_def)
  qed
  have "0 < length (nat_digits m)" for m using nat_digits_ne [of m] by simp
  then show ?thesis
    by (simp add: py_int_of_str_def strip sign digits_scan_nat_digits)
qed

lemma py_strip_snoc_space: "py_isspace c \<Longrightarrow> py_strip (s @ [c]) = py_strip s"
  by (induction s) (auto simp: py_strip_def)

lemma py_strip_Cons_space: "py_isspace c \<Longrightarrow> py_strip (c # s) = py_strip s"
  by (simp add: py_strip_def)

lemma set_nat_digits: "set (nat_digits m) \<subseteq> {c. py_isdigit c}"
  using nat_digits_digits [of m] by auto

lemma py_str_int_chars: "c \<in> set (py_str_int i) \<Longrightarrow> py_isdigit c \<or> c = CHR ''-''"
  using set_nat_digits by (fastforce simp: py_str_int_def split: if_split_asm)

lemma py_isdigit_special:
  "\<not> py_isdigit (char_of (9::nat))" "\<not> py_isdigit (CHR ''\<newline>'')" "\<not> py_isdigit (CHR '','')"
  by (simp_all add: py_isdigit_def)

lemma py_int_of_str_snoc_space:
  "py_isspace c \<Longrightarrow> py_int_of_str (s @ [c]) = py_int_of_str s"
  by (simp add: py_int_of_str_def py_strip_snoc_space)

end
