(* ===== verification/PyFloat.thy ===== *)
theory PyFloat
  imports PyNum
begin

text \<open>
  The float arithmetic behind the averages of \<open>make_report\<close>
  (\<open>src/sentiment_analysis.py\<close>, lines 135--146) and their text in \<open>write_report\<close>
  (lines 172--180): the true division \<open>a / b\<close> of two ints, \<open>round(x, 2)\<close> and
  \<open>str\<close> of the rounded float.

  A binary64 value is represented by its exact rational value. \<open>binary64 q\<close> is
  the double nearest to \<open>q\<close> with ties to even: 53 significant bits, subnormal
  spacing \<open>2^-1074\<close> below \<open>2^-1022\<close>. The exponent is found by \<open>flog2\<close>,
  a halving/doubling search whose termination is proved by a measure.
  \<open>binary64\<close> itself has no upper exponent limit; the division \<open>py_div\<close> raises
  \<open>OverflowError\<close> where its rounded value reaches \<open>2^1024\<close>, so every value
  that reaches the report is a finite double.
\<close>

function flog2 :: "rat \<Rightarrow> int" where
  "flog2 q = (if q \<le> 0 then 0 else if q < 1 then flog2 (2 * q) - 1
              else if q < 2 then 0 else flog2 (q / 2) + 1)"
  by pat_completeness auto
termination
proof (relation "measure (\<lambda>q. if q \<le> 0 then 0 else if q < 1 then nat \<lceil>1 / q\<rceil> else nat \<lfloor>q\<rfloor>)")
  show "wf (measure (\<lambda>q. if q \<le> 0 then 0 else if q < 1 then nat \<lceil>1 / q\<rceil> else nat \<lfloor>q\<rfloor>))" by simp
next
  fix q :: rat assume "\<not> q \<le> 0" "q < 1"
  show "(2 * q, q) \<in> measure (\<lambda>q. if q \<le> 0 then 0 else if q < 1 then nat \<lceil>1 / q\<rceil> else nat \<lfloor>q\<rfloor>)"
  proof (cases "2 * q < 1")
    case True
    have x: "2 < 1 / q" using \<open>\<not> q \<le> 0\<close> True by (simp add: field_simps)
    have "of_int \<lceil>1 / (2 * q)\<rceil> < 1 / (2 * q) + 1" by linarith
    also have "\<dots> \<le> 1 / q" using x by (simp add: field_simps)
    also have "\<dots> \<le> of_int \<lceil>1 / q\<rceil>" by linarith
    finally have "\<lceil>1 / (2 * q)\<rceil> < \<lceil>1 / q\<rceil>" by linarith
    then show ?thesis using True \<open>\<not> q \<le> 0\<close> \<open>q < 1\<close> by simp
  next
    case False
    have "\<lfloor>2 * q\<rfloor> = 1" using False \<open>q < 1\<close> by (simp add: floor_eq_iff)
    moreover have "1 < 1 / q" using \<open>\<not> q \<le> 0\<close> \<open>q < 1\<close> by (simp add: field_simps)
    then have "2 \<le> \<lceil>1 / q\<rceil>" by linarith
    ultimately show ?thesis using False \<open>\<not> q \<le> 0\<close> \<open>q < 1\<close> by simp
  qed
next
  fix q :: rat assume "\<not> q \<le> 0" "\<not> q < 1" "\<not> q < 2"
  show "(q / 2, q) \<in> measure (\<lambda>q. if q \<le> 0 then 0 else if q < 1 then nat \<lceil>1 / q\<rceil> else nat \<lfloor>q\<rfloor>)"
  proof -
    have "of_int \<lfloor>q / 2\<rfloor> \<le> q / 2" by (rule of_int_floor_le)
    also have "\<dots> \<le> q - 1" using \<open>\<not> q < 2\<close> by simp
    also have "\<dots> < of_int \<lfloor>q\<rfloor>" by linarith
    finally have "\<lfloor>q / 2\<rfloor> < \<lfloor>q\<rfloor>" by linarith
    then show ?thesis using \<open>\<not> q < 2\<close> by simp
  qed
qed

declare flog2.simps [simp del]

definition round_half_even :: "rat \<Rightarrow> int" where
  "round_half_even x = (let f = \<lfloor>x\<rfloor>; d = x - of_int f in
     if d < 1/2 then f else if 1/2 < d then f + 1 else if even f then f else f + 1)"

definition binary64 :: "rat \<Rightarrow> rat" where
  "binary64 q = (if q = 0 then 0 else
     (let a = \<bar>q\<bar>; e = max (flog2 a - 52) (-1074); m = round_half_even (a / power_int 2 e)
      in sgn q * of_int m * power_int 2 e))"


text \<open>\<open>a / b\<close> on two Python ints: the correctly rounded binary64 quotient
  (\<open>long_true_divide\<close>), as a value: \<open>py_div\<close> below adds the exceptions.\<close>

definition py_truediv :: "int \<Rightarrow> int \<Rightarrow> rat" where
  "py_truediv a b = binary64 (of_int a / of_int b)"

text \<open>\<open>a / b\<close> with its exceptions (\<open>long_true_divide\<close>): \<open>ZeroDivisionError\<close>
  for \<open>b = 0\<close>, and \<open>OverflowError\<close> ("integer division result too large for a
  float") when the correctly rounded quotient is beyond the largest double, that is of
  magnitude \<open>2^1024\<close> or more.\<close>

definition py_div :: "int \<Rightarrow> int \<Rightarrow> rat py_result" where
  "py_div a b = (if b = 0 then Inl ZeroDivisionError
     else (let q = py_truediv a b in if 2 ^ 1024 \<le> \<bar>q\<bar> then Inl OverflowError else Inr q))"

text \<open>The float \<open>round(x, 2)\<close>: its sign bit and its value in hundredths. CPython
  rounds the exact binary value of \<open>x\<close> to two decimals, ties to even
  (\<open>_Py_dg_dtoa\<close> mode 3), keeps the sign of \<open>x\<close> (so \<open>round(-0.001, 2)\<close> is
  \<open>-0.0\<close>), and returns the float nearest to that decimal.\<close>

datatype float2 = Float2 (f2_neg: bool) (f2_cents: int)

definition py_round2 :: "rat \<Rightarrow> float2" where
  "py_round2 x = Float2 (x < 0) (round_half_even (100 * x))"

text \<open>\<open>str\<close> of such a float (\<open>float_repr\<close>, shortest round-trip digits in
  fixed notation): the sign, the integer part, a point, and the hundredths without
  trailing zeros, at least one digit. This is CPython's text for every rounded value of
  magnitude below \<open>2^46\<close>. There the spacing of doubles is below \<open>0.01\<close>, so no
  other decimal with at most two places reads back to the same double. Larger values
  may print with fewer digits, and from \<open>1e16\<close> on in exponent notation; neither
  case is modelled.\<close>

definition frac_digits :: "nat \<Rightarrow> string" where
  "frac_digits r = (if r = 0 then ''0''
     else if r mod 10 = 0 then [char_of (48 + r div 10)]
     else [char_of (48 + r div 10), char_of (48 + r mod 10)])"

definition py_str_float2 :: "float2 \<Rightarrow> string" where
  "py_str_float2 f = (let c = nat \<bar>f2_cents f\<bar> in
     (if f2_neg f then ''-'' else []) @ nat_digits (c div 100) @ ''.'' @ frac_digits (c mod 100))"

section \<open>Lemmas\<close>

lemma flog2_bounds:
  "0 < q \<Longrightarrow> power_int 2 (flog2 q) \<le> q \<and> q < power_int 2 (flog2 q + 1)"
proof (induction q rule: flog2.induct)
  case (1 q)
  show ?case
  proof (cases "q < 1")
    case True
    then have "flog2 q = flog2 (2 * q) - 1" using "1.prems" by (subst flog2.simps) simp
    moreover have "power_int 2 (flog2 (2 * q)) \<le> 2 * q \<and> 2 * q < power_int 2 (flog2 (2 * q) + 1)"
      using "1.IH"(1) "1.prems" True by simp
    ultimately show ?thesis by (simp add: power_int_diff power_int_add)
  next
    case False
    show ?thesis
    proof (cases "q < 2")
      case True
      with False have "flog2 q = 0" using "1.prems" by (subst flog2.simps) simp
      with False True show ?thesis by simp
    next
      case q2: False
      then have "flog2 q = flog2 (q / 2) + 1" using "1.prems" False by (subst flog2.simps) simp
      moreover have "power_int 2 (flog2 (q / 2)) \<le> q / 2 \<and> q / 2 < power_int 2 (flog2 (q / 2) + 1)"
        using "1.IH"(2) "1.prems" False q2 by simp
      ultimately show ?thesis by (simp add: power_int_add)
    qed
  qed
qed

lemma round_half_even_bound: "\<bar>of_int (round_half_even x) - x\<bar> \<le> 1 / 2"
proof -
  have "of_int \<lfloor>x\<rfloor> \<le> x" "x < of_int \<lfloor>x\<rfloor> + 1" by linarith+
  then show ?thesis unfolding round_half_even_def Let_def
    by (auto simp: abs_if split: if_split_asm; linarith)
qed

lemma round_half_even_neg: "x < 0 \<Longrightarrow> round_half_even x \<le> 0"
proof -
  assume "x < 0"
  then have "\<lfloor>x\<rfloor> \<le> -1" by linarith
  then show ?thesis unfolding round_half_even_def Let_def by simp
qed

lemma round_half_even_nonneg: "0 \<le> x \<Longrightarrow> 0 \<le> round_half_even x"
  unfolding round_half_even_def Let_def by simp

lemma frac_digits_value:
  assumes "r < 100"
  shows "(\<forall>c \<in> set (frac_digits r). py_isdigit c) \<and> frac_digits r \<noteq> [] \<and>
         (of_nat (foldl (\<lambda>a c. 10 * a + digit_val c) 0 (frac_digits r)) :: rat)
           / 10 ^ length (frac_digits r) = of_nat r / 100"
proof -
  have d1: "r div 10 < 10" using assms by simp
  have d2: "r mod 10 < 10" by simp
  have "r = 10 * (r div 10) + r mod 10" by simp
  then have "(of_nat r :: rat) = 10 * of_nat (r div 10) + of_nat (r mod 10)"
    by (metis of_nat_add of_nat_mult of_nat_numeral)
  then show ?thesis
    using digit_char [OF d1] digit_char [OF d2]
    by (auto simp: frac_digits_def py_isdigit_def digit_val_def)
qed

lemma py_str_float2_chars:
  "c \<in> set (py_str_float2 f) \<Longrightarrow> py_isdigit c \<or> c = CHR ''-'' \<or> c = CHR ''.''"
  using nat_digits_digits [of "nat \<bar>f2_cents f\<bar> div 100"]
    frac_digits_value [of "nat \<bar>f2_cents f\<bar> mod 100"]
  by (auto simp: py_str_float2_def Let_def split: if_splits)

lemma py_lower_digit: "py_isdigit c \<Longrightarrow> py_lower c = c"
  by (simp add: py_lower_def py_isupper_l1_def py_isdigit_def Let_def)

lemma py_float_of_str_float2:
  assumes "f2_neg f \<longrightarrow> f2_cents f \<le> 0" and "\<not> f2_neg f \<longrightarrow> 0 \<le> f2_cents f"
  shows "py_float_of_str (py_str_float2 f) = Inr (FloatNum (of_int (f2_cents f) / 100))"
proof -
  define c where "c = nat \<bar>f2_cents f\<bar>"
  define ds where "ds = nat_digits (c div 100)"
  define fd where "fd = frac_digits (c mod 100)"
  define body where "body = ds @ CHR ''.'' # fd"
  have fd: "(\<forall>x \<in> set fd. py_isdigit x) \<and> fd \<noteq> [] \<and>
      (of_nat (foldl (\<lambda>a c. 10 * a + digit_val c) 0 fd) :: rat) / 10 ^ length fd = of_nat (c mod 100) / 100"
    unfolding fd_def by (rule frac_digits_value) simp
  have ds: "ds \<noteq> []" "py_isdigit (hd ds)" "\<forall>x \<in> set ds. py_isdigit x"
    by (simp_all add: ds_def nat_digits_ne hd_nat_digits nat_digits_digits)
  have str: "py_str_float2 f = (if f2_neg f then CHR ''-'' # body else body)"
    by (simp add: py_str_float2_def Let_def c_def ds_def fd_def body_def)
  have hb: "hd body = hd ds" using ds(1) by (simp add: body_def)
  have lb: "py_isdigit (last body)" using fd by (simp add: body_def)
  have minus: "\<not> py_isspace (CHR ''-'')" by (simp add: py_isspace_def)
  have strip: "py_strip (py_str_float2 f) = py_str_float2 f"
    by (rule py_strip_id) (use ds(2) hb lb minus in
        \<open>auto simp: str body_def py_isdigit_not_space\<close>)
  have hd_sign: "hd body \<noteq> CHR ''-'' \<and> hd body \<noteq> CHR ''+''"
    using ds(2) hb by (auto simp: py_isdigit_def)
  have sign: "split_sign (py_str_float2 f) = (f2_neg f, body)"
    using hd_sign ds(1) by (cases ds) (auto simp: split_sign_def str body_def)
  have low: "hd (map py_lower body) = hd ds"
    using ds(1,2) by (simp add: body_def hd_map py_lower_digit)
  have nspecial: "map py_lower body \<noteq> ''inf'' \<and> map py_lower body \<noteq> ''infinity'' \<and>
      map py_lower body \<noteq> ''nan''"
  proof -
    have "hd ds \<noteq> CHR ''i'' \<and> hd ds \<noteq> CHR ''n''" using ds(2) by (auto simp: py_isdigit_def)
    then show ?thesis using low by (intro conjI notI) simp_all
  qed
  have scan1: "digits_scan 0 0 body = (c div 100, length ds, CHR ''.'' # fd)"
    using digits_scan_digits [OF ds(3), of 0 0 "CHR ''.'' # fd"] nat_digits_value [of 0 "c div 100"]
    by (simp add: body_def ds_def py_isdigit_def)
  have scan2: "digits_scan 0 0 fd = (foldl (\<lambda>a c. 10 * a + digit_val c) 0 fd, length fd, [])"
    using digits_scan_digits [of fd 0 0 "[]"] fd by simp
  have val: "((of_nat (c div 100) * 10 ^ length fd + of_nat (foldl (\<lambda>a c. 10 * a + digit_val c) 0 fd)) :: rat)
      / 10 ^ length fd = of_nat c / 100"
  proof -
    have "((of_nat (c div 100) * 10 ^ length fd + of_nat (foldl (\<lambda>a c. 10 * a + digit_val c) 0 fd)) :: rat)
        / 10 ^ length fd = of_nat (c div 100) + of_nat (c mod 100) / 100"
      using fd by (simp add: add_divide_distrib)
    also have "\<dots> = (of_nat (c div 100) * 100 + of_nat (c mod 100)) / 100"
      by (simp add: add_divide_distrib)
    also have "of_nat (c div 100) * 100 + of_nat (c mod 100) = (of_nat c :: rat)"
      by (metis div_mult_mod_eq of_nat_add of_nat_mult of_nat_numeral)
    finally show ?thesis .
  qed
  have sgn: "(if f2_neg f then - (of_nat c / 100) else of_nat c / 100) = (of_int (f2_cents f) :: rat) / 100"
    using assms by (auto simp: c_def)
  show ?thesis
    using ds(1) nspecial
    by (simp add: py_float_of_str_def strip sign scan1 scan2 py_exponent_def val sgn Let_def)
qed

lemma binary64_dist:
  "\<bar>binary64 q - q\<bar> \<le> power_int 2 (max (flog2 \<bar>q\<bar> - 52) (-1074)) / 2"
proof (cases "q = 0")
  case True
  then show ?thesis by (simp add: binary64_def)
next
  case q0: False
  define a where "a = \<bar>q\<bar>"
  define e where "e = max (flog2 a - 52) (-1074)"
  define m where "m = round_half_even (a / power_int 2 e)"
  have val: "binary64 q = sgn q * of_int m * power_int 2 e"
    using q0 by (simp add: binary64_def Let_def m_def e_def a_def)
  have sq: "sgn q * a = q" by (simp add: a_def abs_mult_sgn sgn_mult_abs)
  have "binary64 q - q = sgn q * (of_int m * power_int 2 e - a)"
    using sq by (simp add: val right_diff_distrib mult.assoc)
  then have "\<bar>binary64 q - q\<bar> = \<bar>of_int m * power_int 2 e - a\<bar>"
    using q0 by (simp add: abs_mult abs_sgn_eq)
  also have "\<dots> = \<bar>power_int 2 e * (of_int m - a / power_int 2 e)\<bar>"
    by (simp add: right_diff_distrib mult.commute)
  also have "\<dots> = power_int 2 e * \<bar>of_int m - a / power_int 2 e\<bar>"
    by (simp add: abs_mult)
  also have "\<dots> \<le> power_int 2 e * (1 / 2)"
    by (rule mult_left_mono) (simp_all only: m_def round_half_even_bound, simp)
  finally show ?thesis by (simp add: e_def a_def)
qed

text \<open>No overflow below \<open>2^1023\<close>: a rational of smaller magnitude rounds to a
  finite double.\<close>

lemma binary64_small:
  assumes "\<bar>q\<bar> < 2 ^ 1023"
  shows "\<bar>binary64 q\<bar> < 2 ^ 1024"
proof (cases "q = 0")
  case True
  then show ?thesis by (simp add: binary64_def)
next
  case False
  then have a0: "0 < \<bar>q\<bar>" by simp
  have "\<not> 1023 \<le> flog2 \<bar>q\<bar>"
  proof
    assume "1023 \<le> flog2 \<bar>q\<bar>"
    then have "power_int (2::rat) 1023 \<le> power_int 2 (flog2 \<bar>q\<bar>)"
      by (rule power_int_increasing) simp
    with flog2_bounds [OF a0] assms show False by simp
  qed
  then have "max (flog2 \<bar>q\<bar> - 52) (-1074) \<le> 970" by simp
  then have "power_int (2::rat) (max (flog2 \<bar>q\<bar> - 52) (-1074)) \<le> power_int 2 970"
    by (rule power_int_increasing) simp
  then have d: "\<bar>binary64 q - q\<bar> \<le> 2 ^ 969"
    using binary64_dist [of q] by simp
  have n: "(2::rat) ^ 969 + 2 ^ 1023 \<le> 2 ^ 1024" by simp
  have "\<bar>binary64 q\<bar> \<le> \<bar>binary64 q - q\<bar> + \<bar>q\<bar>" by linarith
  then show ?thesis using d n assms by linarith
qed

text \<open>Overflow from \<open>2^1025\<close> on: a rational of that magnitude rounds to a value
  of magnitude at least \<open>2^1024\<close>.\<close>

lemma binary64_large:
  assumes "2 ^ 1025 \<le> \<bar>q\<bar>"
  shows "2 ^ 1024 \<le> \<bar>binary64 q\<bar>"
proof -
  have a0: "0 < \<bar>q\<bar>" using assms by (rule less_le_trans [rotated]) simp
  have b: "power_int 2 (flog2 \<bar>q\<bar>) \<le> \<bar>q\<bar>" using flog2_bounds [OF a0] by simp
  have "\<not> flog2 \<bar>q\<bar> < 1025"
  proof
    assume "flog2 \<bar>q\<bar> < 1025"
    then have "flog2 \<bar>q\<bar> + 1 \<le> 1025" by simp
    then have "power_int (2::rat) (flog2 \<bar>q\<bar> + 1) \<le> power_int 2 1025"
      by (rule power_int_increasing) simp
    with flog2_bounds [OF a0] assms show False by simp
  qed
  then have e: "max (flog2 \<bar>q\<bar> - 52) (-1074) = flog2 \<bar>q\<bar> - 52" by simp
  have "\<bar>binary64 q - q\<bar> \<le> power_int 2 (flog2 \<bar>q\<bar> - 52) / 2"
    using binary64_dist [of q] by (simp only: e)
  also have "\<dots> = power_int 2 (flog2 \<bar>q\<bar>) / 2 ^ 53" by (simp add: power_int_diff)
  also have "\<dots> \<le> \<bar>q\<bar> / 2" using b by (simp add: divide_le_eq)
  finally have d: "\<bar>binary64 q - q\<bar> \<le> \<bar>q\<bar> / 2" .
  have n: "(2::rat) ^ 1025 = 2 * 2 ^ 1024" by simp
  have "\<bar>q\<bar> - \<bar>binary64 q - q\<bar> \<le> \<bar>binary64 q\<bar>" by linarith
  then show ?thesis using d n assms by linarith
qed

lemma py_truediv_small:
  "\<bar>a\<bar> < 2 ^ 1023 \<Longrightarrow> \<bar>py_truediv a b\<bar> < 2 ^ 1024"
proof -
  assume a: "\<bar>a\<bar> < 2 ^ 1023"
  have "\<bar>(of_int a :: rat) / of_int b\<bar> \<le> \<bar>of_int a\<bar>"
  proof (cases "b = 0")
    case True
    then show ?thesis by simp
  next
    case False
    then have "(1::rat) \<le> of_int \<bar>b\<bar>" by linarith
    then have "\<bar>(of_int a :: rat)\<bar> / of_int \<bar>b\<bar> \<le> \<bar>of_int a\<bar> / 1"
      by (intro divide_left_mono) simp_all
    then show ?thesis by (simp add: abs_divide)
  qed
  also have "\<dots> < 2 ^ 1023" using a by (simp add: of_int_less_iff [symmetric, where 'a = rat])
  finally show ?thesis unfolding py_truediv_def by (rule binary64_small)
qed

end
