(* ===== verification/PyDict.thy ===== *)
theory PyDict
  imports Prelude
begin

text \<open>
  A Python \<open>dict\<close> keeps its keys in insertion order, and the sources iterate over
  one (\<open>sorted(country_sentiment, ...)\<close>), so a dict is an association list with
  distinct keys, in insertion order. \<open>d[k] = v\<close> overwrites in place when \<open>k\<close> is
  present and appends otherwise; \<open>d.get(k, dflt)\<close> reads with a default. The
  abstraction to a HOL map is \<open>map_of\<close>.
\<close>

type_synonym ('k, 'v) pydict = "('k \<times> 'v) list"

definition dict_get :: "('k, 'v) pydict \<Rightarrow> 'k \<Rightarrow> 'v \<Rightarrow> 'v" where
  "dict_get d k dflt = (case map_of d k of None \<Rightarrow> dflt | Some v \<Rightarrow> v)"

primrec dict_set :: "('k, 'v) pydict \<Rightarrow> 'k \<Rightarrow> 'v \<Rightarrow> ('k, 'v) pydict" where
  "dict_set [] k v = [(k, v)]"
| "dict_set (e # d) k v = (if fst e = k then (k, v) # d else e # dict_set d k v)"

definition dict_keys :: "('k, 'v) pydict \<Rightarrow> 'k list" where
  "dict_keys d = map fst d"

definition dict_wf :: "('k, 'v) pydict \<Rightarrow> bool" where
  "dict_wf d = distinct (dict_keys d)"

section \<open>Lemmas\<close>

lemma map_of_dict_set [simp]: "map_of (dict_set d k v) = (map_of d)(k \<mapsto> v)"
  by (induction d) (auto simp: fun_eq_iff)

lemma dict_keys_dict_set:
  "dict_keys (dict_set d k v) = (if k \<in> set (dict_keys d) then dict_keys d else dict_keys d @ [k])"
  by (induction d) (auto simp: dict_keys_def)

lemma set_dict_keys_dict_set [simp]: "set (dict_keys (dict_set d k v)) = insert k (set (dict_keys d))"
  by (auto simp: dict_keys_dict_set)

lemma dict_wf_dict_set [simp]: "dict_wf d \<Longrightarrow> dict_wf (dict_set d k v)"
  by (simp add: dict_wf_def dict_keys_dict_set)

lemma dict_get_dict_set [simp]:
  "dict_get (dict_set d k v) k' dflt = (if k' = k then v else dict_get d k' dflt)"
  by (simp add: dict_get_def)

lemma dict_get_Nil [simp]: "dict_get [] k dflt = dflt"
  by (simp add: dict_get_def)

lemma dict_keys_Nil [simp]: "dict_keys [] = []" and dict_wf_Nil [simp]: "dict_wf []"
  by (simp_all add: dict_keys_def dict_wf_def)

lemma set_dict_keys_dom: "set (dict_keys d) = dom (map_of d)"
  by (simp add: dict_keys_def dom_map_of_conv_image_fst)

lemma dict_get_not_key: "k \<notin> set (dict_keys d) \<Longrightarrow> dict_get d k dflt = dflt"
  by (simp add: dict_get_def set_dict_keys_dom domIff)

lemma dict_get_filter_keys:
  "dict_get (filter (\<lambda>e. Q (fst e)) d) k dflt = (if Q k then dict_get d k dflt else dflt)"
  by (induction d) (auto simp: dict_get_def)

lemma dict_set_new: "k \<notin> set (dict_keys d) \<Longrightarrow> dict_set d k v = d @ [(k, v)]"
  by (induction d) (auto simp: dict_keys_def)

end
