(* ===== verification/Scoring.thy ===== *)
theory Scoring
  imports PyString PyDict
begin

text \<open>
  The normaliser and scorer of \<open>src/sentiment_analysis.py\<close>: \<open>clean_tweet_text\<close>
  (lines 30--33), \<open>calc_sentiment\<close> (lines 35--38) and \<open>classify\<close> (lines 42--45).
  The keyword dictionary is the dict that \<open>read_keywords\<close> builds, from keyword
  to integer weight.
\<close>

type_synonym keyword_dict = "(string, int) pydict"

definition clean_tweet_text :: "string \<Rightarrow> string" where
  "clean_tweet_text tweet_text =
     map py_lower (filter (\<lambda>char. py_isalpha char \<or> py_isspace char) tweet_text)"

definition calc_sentiment :: "string \<Rightarrow> keyword_dict \<Rightarrow> int" where
  "calc_sentiment tweet_text keyword_dict =
     sum_list (map (\<lambda>word. dict_get keyword_dict word 0) (py_split_ws tweet_text))"

text \<open>\<open>classify\<close> returns one of the strings \<open>'positive'\<close>, \<open>'negative'\<close>,
  \<open>'neutral'\<close>; the datatype names them, and \<open>classification_str\<close> gives the
  string each stands for.\<close>

datatype classification = Positive | Negative | Neutral

primrec classification_str :: "classification \<Rightarrow> string" where
  "classification_str Positive = ''positive''"
| "classification_str Negative = ''negative''"
| "classification_str Neutral = ''neutral''"

definition classify :: "int \<Rightarrow> classification" where
  "classify score = (if score > 0 then Positive else if score < 0 then Negative else Neutral)"

section \<open>Lemmas\<close>

lemma classification_str_inj: "classification_str a = classification_str b \<longleftrightarrow> a = b"
  by (cases a; cases b) simp_all

lemma set_clean_tweet_text:
  "c \<in> set (clean_tweet_text s) \<Longrightarrow> (py_isalpha c \<and> py_lower c = c) \<or> py_isspace c"
  by (auto simp: clean_tweet_text_def)

section \<open>Properties of the scorer\<close>

text \<open>(C14) Scores add up across a whitespace character: the score of two texts
  joined by a space is the sum of their scores.\<close>

theorem calc_sentiment_append_space:
  "py_isspace c \<Longrightarrow> calc_sentiment (xs @ c # ys) kw = calc_sentiment xs kw + calc_sentiment ys kw"
  by (simp add: calc_sentiment_def py_split_ws_append_space)

text \<open>(C15) \<open>classify\<close> partitions the integers at zero: positive exactly for
  scores above zero, negative exactly below, neutral exactly at zero.\<close>

theorem classify_partition:
  "(classify s = Positive \<longleftrightarrow> 0 < s) \<and> (classify s = Negative \<longleftrightarrow> s < 0) \<and>
   (classify s = Neutral \<longleftrightarrow> s = 0)"
  by (simp add: classify_def)

end
