(* ===== verification/Tweet.thy ===== *)
theory Tweet
  imports Prelude
begin

text \<open>
  The tweet record that \<open>read_tweets\<close> builds (\<open>src/sentiment_analysis.py\<close>,
  lines 62--76) and \<open>make_report\<close> consumes. The Python dict has fixed keys, so it
  is a record with one field per key. \<open>country\<close>, \<open>state\<close> and \<open>city\<close> hold the
  raw field, the string \<open>NULL\<close> included. \<open>lat\<close> and \<open>lon\<close> are the string
  \<open>'NULL'\<close> or a float; a float is represented by the exact value of the decimal
  literal it was parsed from (rounding to binary64 is not modelled), or an infinity,
  or NaN. Only \<open>text\<close> (field \<open>tweet_text\<close>, since \<open>text\<close> is an Isar keyword), \<open>retweet\<close>, \<open>favorite\<close> and \<open>country\<close> are read by
  \<open>make_report\<close>.
\<close>

datatype null_or_float = NULL | Float py_float

record tweet =
  date :: string
  tweet_text :: string
  user :: string
  retweet :: int
  favorite :: int
  lang :: string
  country :: string
  state :: string
  city :: string
  lat :: null_or_float
  lon :: null_or_float

end
