(* ===== verification/Aggregation.thy ===== *)
theory Aggregation
  imports Scoring Tweet PyFloat
begin

text \<open>
  \<open>make_report\<close> (\<open>src/sentiment_analysis.py\<close>, lines 90--163). The local
  accumulators of lines 96--103 form the record \<open>report_state\<close>; the body of the
  \<open>for\<close> loop (lines 107--132) is \<open>report_step\<close>, and the loop is \<open>foldl\<close> of it
  over the tweet list. The averages and the ranking of lines 135--146 and the report
  dict of lines 150--161 are \<open>make_report\<close>.

  Averages: the source computes \<open>round(total / n, 2)\<close>, or the string \<open>'NAN'\<close>
  when \<open>n = 0\<close>. The model computes the correctly rounded binary64 quotient
  (\<open>py_truediv\<close>), rounds it with \<open>py_round2\<close> (theory \<open>PyFloat\<close>), and
  represents \<open>'NAN'\<close> by \<open>None\<close>. The sort key of line 136 is the binary64
  quotient \<open>country_sentiment[k] / country_counts[k]\<close>, so countries whose
  averages round to the same double tie, as they do in CPython.
\<close>

record report_state =
  total_sentiment :: int
  num_positive :: nat
  num_negative :: nat
  num_neutral :: nat
  num_retweet :: nat
  num_favorite :: nat
  tot_retweet :: int
  tot_favorite :: int
  country_sentiment :: "(string, int) pydict"
  country_counts :: "(string, nat) pydict"

definition report_init :: report_state where
  "report_init = \<lparr>total_sentiment = 0, num_positive = 0, num_negative = 0, num_neutral = 0,
     num_retweet = 0, num_favorite = 0, tot_retweet = 0, tot_favorite = 0,
     country_sentiment = [], country_counts = []\<rparr>"

text \<open>Line 130: \<open>if country and country != 'NULL'\<close>; the empty string is falsy.\<close>

definition has_country :: "string \<Rightarrow> bool" where
  "has_country c = (c \<noteq> [] \<and> c \<noteq> ''NULL'')"

definition report_step :: "keyword_dict \<Rightarrow> report_state \<Rightarrow> tweet \<Rightarrow> report_state" where
  "report_step keyword_dict st tw =
     (let sentiment = calc_sentiment (tweet_text tw) keyword_dict;
          st1 = st\<lparr>total_sentiment := total_sentiment st + sentiment\<rparr>;
          classification = classify sentiment;
          st2 = (if retweet tw > 0
                 then st1\<lparr>num_retweet := num_retweet st1 + 1,
                          tot_retweet := tot_retweet st1 + sentiment\<rparr>
                 else st1);
          st3 = (if favorite tw > 0
                 then st2\<lparr>num_favorite := num_favorite st2 + 1,
                          tot_favorite := tot_favorite st2 + sentiment\<rparr>
                 else st2);
          st4 = (case classification of
                   Positive \<Rightarrow> st3\<lparr>num_positive := num_positive st3 + 1\<rparr>
                 | Negative \<Rightarrow> st3\<lparr>num_negative := num_negative st3 + 1\<rparr>
                 | Neutral \<Rightarrow> st3\<lparr>num_neutral := num_neutral st3 + 1\<rparr>);
          c = country tw
      in if has_country c
         then st4\<lparr>country_sentiment := dict_set (country_sentiment st4) c
                      (dict_get (country_sentiment st4) c 0 + sentiment),
                  country_counts := dict_set (country_counts st4) c
                      (dict_get (country_counts st4) c 0 + 1)\<rparr>
         else st4)"

definition report_loop :: "keyword_dict \<Rightarrow> tweet list \<Rightarrow> report_state" where
  "report_loop keyword_dict tweet_list = foldl (report_step keyword_dict) report_init tweet_list"

text \<open>The sort key of line 136, \<open>country_sentiment[k] / country_counts[k]\<close>. The
  model reads both dicts with \<open>dict_get\<close>; \<open>report_inv\<close> below shows that every key
  of \<open>country_sentiment\<close> has a positive count, so the \<open>KeyError\<close> and
  \<open>ZeroDivisionError\<close> of the source are unreachable there.\<close>

definition country_avg :: "report_state \<Rightarrow> string \<Rightarrow> rat" where
  "country_avg st k = py_truediv (dict_get (country_sentiment st) k 0) (int (dict_get (country_counts st) k 0))"

definition top_countries :: "report_state \<Rightarrow> string list" where
  "top_countries st = take 5 (py_sorted_rev (country_avg st) (dict_keys (country_sentiment st)))"

definition py_avg :: "int \<Rightarrow> nat \<Rightarrow> float2 option" where
  "py_avg tot n = (if n = 0 then None else Some (py_round2 (py_truediv tot (int n))))"

record report =
  rep_avg_favorite :: "float2 option"
  rep_avg_retweet :: "float2 option"
  rep_avg_sentiment :: "float2 option"
  rep_num_tweets :: nat
  rep_num_favorite :: nat
  rep_num_retweet :: nat
  rep_num_positive :: nat
  rep_num_negative :: nat
  rep_num_neutral :: nat
  rep_top_five :: string

definition make_report :: "tweet list \<Rightarrow> keyword_dict \<Rightarrow> report" where
  "make_report tweet_list keyword_dict =
     (let num_tweets = length tweet_list;
          st = report_loop keyword_dict tweet_list;
          sorted_countries = top_countries st
      in \<lparr>rep_avg_favorite = py_avg (tot_favorite st) (num_favorite st),
          rep_avg_retweet = py_avg (tot_retweet st) (num_retweet st),
          rep_avg_sentiment = py_avg (total_sentiment st) num_tweets,
          rep_num_tweets = num_tweets,
          rep_num_favorite = num_favorite st,
          rep_num_retweet = num_retweet st,
          rep_num_positive = num_positive st,
          rep_num_negative = num_negative st,
          rep_num_neutral = num_neutral st,
          rep_top_five = py_join '', '' sorted_countries\<rparr>)"

text \<open>Lines 134--161 with their exceptions. Each division is \<open>py_div\<close>, so it can
  raise \<open>OverflowError\<close>. They run in the source's order: the overall average (line
  135), the sort keys of every country in dict order (\<open>sorted\<close> computes all keys
  before sorting, line 136), then the retweet and favourite averages (lines 138--146).
  The ranking sorts the countries decorated with their computed keys, as \<open>sorted\<close>
  does. \<open>make_report\<close> above is the value of this computation when nothing raises.\<close>

definition py_avg_div :: "int \<Rightarrow> nat \<Rightarrow> float2 option py_result" where
  "py_avg_div tot n = (if n = 0 then Inr None else py_bind (py_div tot (int n)) (\<lambda>q. Inr (Some (py_round2 q))))"

definition country_key :: "report_state \<Rightarrow> string \<Rightarrow> rat py_result" where
  "country_key st k = py_div (dict_get (country_sentiment st) k 0) (int (dict_get (country_counts st) k 0))"

definition make_report_py :: "tweet list \<Rightarrow> keyword_dict \<Rightarrow> report py_result" where
  "make_report_py tweet_list keyword_dict =
     (let num_tweets = length tweet_list;
          st = report_loop keyword_dict tweet_list;
          countries = dict_keys (country_sentiment st)
      in py_bind (py_avg_div (total_sentiment st) num_tweets) (\<lambda>avg_sentiment.
         py_bind (py_map (country_key st) countries) (\<lambda>keys.
         py_bind (py_avg_div (tot_retweet st) (num_retweet st)) (\<lambda>avg_retweet.
         py_bind (py_avg_div (tot_favorite st) (num_favorite st)) (\<lambda>avg_favorite.
         Inr \<lparr>rep_avg_favorite = avg_favorite,
              rep_avg_retweet = avg_retweet,
              rep_avg_sentiment = avg_sentiment,
              rep_num_tweets = num_tweets,
              rep_num_favorite = num_favorite st,
              rep_num_retweet = num_retweet st,
              rep_num_positive = num_positive st,
              rep_num_negative = num_negative st,
              rep_num_neutral = num_neutral st,
              rep_top_five = py_join '', '' (take 5 (map fst (py_sorted_rev snd (zip countries keys))))\<rparr>)))))"

section \<open>Abstract specification of the loop\<close>

text \<open>
  What the accumulation computes, stated without the loop: the score of a tweet, the
  tweets counted for a country, the countries in first-seen order, and a country's
  average (the binary64 quotient). \<open>report_inv\<close> is the well-formedness of the two country dicts:
  distinct keys, the same keys in the same order, and a positive count for each.
\<close>

abbreviation tweet_score :: "keyword_dict \<Rightarrow> tweet \<Rightarrow> int" where
  "tweet_score kw t \<equiv> calc_sentiment (tweet_text t) kw"

definition country_tweets :: "tweet list \<Rightarrow> string \<Rightarrow> tweet list" where
  "country_tweets ts c = filter (\<lambda>t. has_country (country t) \<and> country t = c) ts"

definition spec_countries :: "tweet list \<Rightarrow> string list" where
  "spec_countries ts = first_seen (map country (filter (\<lambda>t. has_country (country t)) ts))"

definition spec_country_avg :: "keyword_dict \<Rightarrow> tweet list \<Rightarrow> string \<Rightarrow> rat" where
  "spec_country_avg kw ts c =
     py_truediv (sum_list (map (tweet_score kw) (country_tweets ts c))) (int (length (country_tweets ts c)))"

definition report_inv :: "report_state \<Rightarrow> bool" where
  "report_inv st = (dict_wf (country_sentiment st) \<and>
     dict_keys (country_counts st) = dict_keys (country_sentiment st) \<and>
     (\<forall>k \<in> set (dict_keys (country_counts st)). 0 < dict_get (country_counts st) k 0))"

text \<open>When a division of lines 134--146 overflows: an average over a non-empty
  group, or the key of a country, whose binary64 quotient reaches \<open>2^1024\<close>.\<close>

definition avg_overflow :: "int \<Rightarrow> nat \<Rightarrow> bool" where
  "avg_overflow tot n = (n \<noteq> 0 \<and> 2 ^ 1024 \<le> \<bar>py_truediv tot (int n)\<bar>)"

definition report_overflow :: "report_state \<Rightarrow> nat \<Rightarrow> bool" where
  "report_overflow st n = (avg_overflow (total_sentiment st) n \<or>
     list_ex (\<lambda>k. 2 ^ 1024 \<le> \<bar>country_avg st k\<bar>) (dict_keys (country_sentiment st)) \<or>
     avg_overflow (tot_retweet st) (num_retweet st) \<or> avg_overflow (tot_favorite st) (num_favorite st))"

section \<open>Lemmas on the loop\<close>

named_theorems report_step_simps

lemma report_step_total [report_step_simps]:
  "total_sentiment (report_step kw st t) = total_sentiment st + tweet_score kw t"
  by (simp add: report_step_def Let_def split: classification.split)

lemma report_step_positive [report_step_simps]:
  "num_positive (report_step kw st t) = num_positive st + (if 0 < tweet_score kw t then 1 else 0)"
  by (simp add: report_step_def Let_def classify_def)

lemma report_step_negative [report_step_simps]:
  "num_negative (report_step kw st t) = num_negative st + (if tweet_score kw t < 0 then 1 else 0)"
  by (simp add: report_step_def Let_def classify_def)

lemma report_step_neutral [report_step_simps]:
  "num_neutral (report_step kw st t) = num_neutral st + (if tweet_score kw t = 0 then 1 else 0)"
  by (simp add: report_step_def Let_def classify_def)

lemma report_step_retweet [report_step_simps]:
  "num_retweet (report_step kw st t) = num_retweet st + (if 0 < retweet t then 1 else 0)"
  "tot_retweet (report_step kw st t) = tot_retweet st + (if 0 < retweet t then tweet_score kw t else 0)"
  by (simp_all add: report_step_def Let_def split: classification.split)

lemma report_step_favorite [report_step_simps]:
  "num_favorite (report_step kw st t) = num_favorite st + (if 0 < favorite t then 1 else 0)"
  "tot_favorite (report_step kw st t) = tot_favorite st + (if 0 < favorite t then tweet_score kw t else 0)"
  by (simp_all add: report_step_def Let_def split: classification.split)

lemma report_step_countries [report_step_simps]:
  "country_sentiment (report_step kw st t) =
     (if has_country (country t)
      then dict_set (country_sentiment st) (country t) (dict_get (country_sentiment st) (country t) 0 + tweet_score kw t)
      else country_sentiment st)"
  "country_counts (report_step kw st t) =
     (if has_country (country t)
      then dict_set (country_counts st) (country t) (dict_get (country_counts st) (country t) 0 + 1)
      else country_counts st)"
  by (simp_all add: report_step_def Let_def split: classification.split)

lemma report_step_inv: "report_inv st \<Longrightarrow> report_inv (report_step kw st t)"
  by (auto simp: report_inv_def report_step_simps dict_keys_dict_set)

lemma report_inv_init: "report_inv report_init"
  by (simp add: report_inv_def report_init_def)

lemma foldl_report_inv: "report_inv st \<Longrightarrow> report_inv (foldl (report_step kw) st ts)"
  by (induction ts arbitrary: st) (simp_all add: report_step_inv)

lemma foldl_report_counts:
  "num_positive (foldl (report_step kw) st ts) = num_positive st + length (filter (\<lambda>t. 0 < tweet_score kw t) ts)"
  "num_negative (foldl (report_step kw) st ts) = num_negative st + length (filter (\<lambda>t. tweet_score kw t < 0) ts)"
  "num_neutral (foldl (report_step kw) st ts) = num_neutral st + length (filter (\<lambda>t. tweet_score kw t = 0) ts)"
  "num_retweet (foldl (report_step kw) st ts) = num_retweet st + length (filter (\<lambda>t. 0 < retweet t) ts)"
  "num_favorite (foldl (report_step kw) st ts) = num_favorite st + length (filter (\<lambda>t. 0 < favorite t) ts)"
  by (induction ts arbitrary: st) (simp_all add: report_step_simps)

lemma foldl_report_sums:
  "total_sentiment (foldl (report_step kw) st ts) = total_sentiment st + sum_list (map (tweet_score kw) ts)"
  "tot_retweet (foldl (report_step kw) st ts) =
     tot_retweet st + sum_list (map (tweet_score kw) (filter (\<lambda>t. 0 < retweet t) ts))"
  "tot_favorite (foldl (report_step kw) st ts) =
     tot_favorite st + sum_list (map (tweet_score kw) (filter (\<lambda>t. 0 < favorite t) ts))"
  by (induction ts arbitrary: st) (simp_all add: report_step_simps)

lemma foldl_country_dicts:
  "dict_get (country_sentiment (foldl (report_step kw) st ts)) c 0 =
     dict_get (country_sentiment st) c 0 + sum_list (map (tweet_score kw) (country_tweets ts c))"
  "dict_get (country_counts (foldl (report_step kw) st ts)) c 0 =
     dict_get (country_counts st) c 0 + length (country_tweets ts c)"
  by (induction ts arbitrary: st) (auto simp: report_step_simps country_tweets_def)

lemma foldl_country_keys:
  "dict_wf (country_sentiment st) \<Longrightarrow>
   dict_keys (country_sentiment (foldl (report_step kw) st ts)) =
     first_seen (dict_keys (country_sentiment st) @ map country (filter (\<lambda>t. has_country (country t)) ts))"
proof (induction ts rule: rev_induct)
  case Nil
  then show ?case by (simp add: dict_wf_def first_seen_distinct)
next
  case (snoc t ts)
  then show ?case
    by (auto simp: report_step_simps dict_keys_dict_set first_seen_append_snoc)
qed


lemma report_loop_fields:
  "num_positive (report_loop kw ts) = length (filter (\<lambda>t. 0 < tweet_score kw t) ts)"
  "num_negative (report_loop kw ts) = length (filter (\<lambda>t. tweet_score kw t < 0) ts)"
  "num_neutral (report_loop kw ts) = length (filter (\<lambda>t. tweet_score kw t = 0) ts)"
  "num_retweet (report_loop kw ts) = length (filter (\<lambda>t. 0 < retweet t) ts)"
  "num_favorite (report_loop kw ts) = length (filter (\<lambda>t. 0 < favorite t) ts)"
  "total_sentiment (report_loop kw ts) = sum_list (map (tweet_score kw) ts)"
  "tot_retweet (report_loop kw ts) = sum_list (map (tweet_score kw) (filter (\<lambda>t. 0 < retweet t) ts))"
  "tot_favorite (report_loop kw ts) = sum_list (map (tweet_score kw) (filter (\<lambda>t. 0 < favorite t) ts))"
  by (simp_all add: report_loop_def report_init_def foldl_report_counts foldl_report_sums)

lemma country_avg_loop: "country_avg (report_loop kw ts) = spec_country_avg kw ts"
  by (simp add: fun_eq_iff country_avg_def spec_country_avg_def report_loop_def
      foldl_country_dicts report_init_def)

lemma country_keys_loop: "dict_keys (country_sentiment (report_loop kw ts)) = spec_countries ts"
  using foldl_country_keys [of report_init kw ts]
  by (simp add: report_loop_def report_init_def spec_countries_def)

lemma top_countries_loop:
  "top_countries (report_loop kw ts) = take 5 (py_sorted_rev (spec_country_avg kw ts) (spec_countries ts))"
  by (simp add: top_countries_def country_avg_loop country_keys_loop)

lemma filter_take_prefix: "\<exists>n. filter P (take m xs) = take n (filter P xs)"
proof -
  have "filter P xs = filter P (take m xs) @ filter P (drop m xs)"
    by (metis append_take_drop_id filter_append)
  then show ?thesis by (metis append_eq_conv_conj)
qed

lemma py_avg_div_eq:
  "py_avg_div tot n = (if avg_overflow tot n then Inl OverflowError else Inr (py_avg tot n))"
  by (simp add: py_avg_div_def avg_overflow_def py_avg_def py_div_def Let_def)

lemma country_key_eq:
  assumes "report_inv st" and "k \<in> set (dict_keys (country_sentiment st))"
  shows "country_key st k = (if 2 ^ 1024 \<le> \<bar>country_avg st k\<bar> then Inl OverflowError else Inr (country_avg st k))"
proof -
  have "0 < dict_get (country_counts st) k 0" using assms by (simp add: report_inv_def)
  then show ?thesis by (simp add: country_key_def country_avg_def py_div_def Let_def)
qed

lemma py_map_country_key:
  "report_inv st \<Longrightarrow> py_map (country_key st) (dict_keys (country_sentiment st)) =
     (if list_ex (\<lambda>k. 2 ^ 1024 \<le> \<bar>country_avg st k\<bar>) (dict_keys (country_sentiment st))
      then Inl OverflowError else Inr (map (country_avg st) (dict_keys (country_sentiment st))))"
  by (subst py_map_one_error [where e = OverflowError and g = "country_avg st"])
     (auto simp: country_key_eq list_ex_iff)

lemma sorted_decorated: "map fst (py_sorted_rev snd (zip xs (map f xs))) = py_sorted_rev f xs"
proof -
  have "zip xs (map f xs) = map (\<lambda>x. (x, f x)) xs" by (induction xs) simp_all
  then show ?thesis by (simp add: py_sorted_rev_map comp_def)
qed

lemma no_report_overflow:
  assumes "\<bar>total_sentiment st\<bar> < 2 ^ 1023" and "\<bar>tot_retweet st\<bar> < 2 ^ 1023"
    and "\<bar>tot_favorite st\<bar> < 2 ^ 1023"
    and "list_all (\<lambda>k. \<bar>dict_get (country_sentiment st) k 0\<bar> < 2 ^ 1023) (dict_keys (country_sentiment st))"
  shows "\<not> report_overflow st n"
  using assms py_truediv_small
  by (auto simp: report_overflow_def avg_overflow_def country_avg_def list_ex_iff list_all_iff not_le)

lemma abs_sum_filter_le:
  "\<bar>sum_list (map f (filter P xs))\<bar> \<le> sum_list (map (\<lambda>x. \<bar>f x :: int\<bar>) xs)"
  by (induction xs) (auto simp: abs_triangle_ineq order_trans [OF abs_triangle_ineq])

lemma country_sum_loop:
  "dict_get (country_sentiment (report_loop kw ts)) c 0 = sum_list (map (tweet_score kw) (country_tweets ts c))"
  by (simp add: report_loop_def foldl_country_dicts report_init_def)

text \<open>The report computation with its exceptions refines to \<open>make_report\<close>: it
  raises \<open>OverflowError\<close> exactly when a division overflows, and otherwise returns
  \<open>make_report\<close>.\<close>

lemma make_report_py_eq:
  "make_report_py ts kw = (if report_overflow (report_loop kw ts) (length ts) then Inl OverflowError
                           else Inr (make_report ts kw))"
proof -
  have inv: "report_inv (report_loop kw ts)"
    by (simp add: report_loop_def foldl_report_inv report_inv_init)
  show ?thesis
    by (simp add: make_report_py_def make_report_def Let_def py_avg_div_eq report_overflow_def
        py_map_country_key [OF inv] sorted_decorated top_countries_def)
qed

section \<open>Properties of make_report\<close>

text \<open>(C1) Every tweet is counted in exactly one sentiment class: the positive, negative and neutral counts of the report add up to the number of tweets.\<close>

theorem make_report_partition:
  "rep_num_positive (make_report ts kw) + rep_num_negative (make_report ts kw)
   + rep_num_neutral (make_report ts kw) = rep_num_tweets (make_report ts kw)"
proof -
  have "length (filter (\<lambda>t. 0 < tweet_score kw t) ts) + length (filter (\<lambda>t. tweet_score kw t < 0) ts)
        + length (filter (\<lambda>t. tweet_score kw t = 0) ts) = length ts"
    by (rule length_filter_three) auto
  then show ?thesis by (simp add: make_report_def Let_def report_loop_fields)
qed

text \<open>(C2) Functional refinement of the accumulation loop: every count and average of the report equals its declarative definition over the tweet list (counts of filtered tweets, sums of scores, \<open>None\<close> for an empty group).\<close>

theorem make_report_spec:
  "rep_num_tweets (make_report ts kw) = length ts \<and>
   rep_num_positive (make_report ts kw) = length (filter (\<lambda>t. 0 < tweet_score kw t) ts) \<and>
   rep_num_negative (make_report ts kw) = length (filter (\<lambda>t. tweet_score kw t < 0) ts) \<and>
   rep_num_neutral (make_report ts kw) = length (filter (\<lambda>t. tweet_score kw t = 0) ts) \<and>
   rep_num_retweet (make_report ts kw) = length (filter (\<lambda>t. 0 < retweet t) ts) \<and>
   rep_num_favorite (make_report ts kw) = length (filter (\<lambda>t. 0 < favorite t) ts) \<and>
   rep_avg_sentiment (make_report ts kw) = py_avg (sum_list (map (tweet_score kw) ts)) (length ts) \<and>
   rep_avg_retweet (make_report ts kw) =
     py_avg (sum_list (map (tweet_score kw) (filter (\<lambda>t. 0 < retweet t) ts)))
            (length (filter (\<lambda>t. 0 < retweet t) ts)) \<and>
   rep_avg_favorite (make_report ts kw) =
     py_avg (sum_list (map (tweet_score kw) (filter (\<lambda>t. 0 < favorite t) ts)))
            (length (filter (\<lambda>t. 0 < favorite t) ts))"
  by (simp add: make_report_def Let_def report_loop_fields)

text \<open>(C3) Refinement of the ranking: the top-five field joins, with \<open>", "\<close>, the first five countries of the stable descending sort, by binary64 average score, of the countries in first-seen order.\<close>

theorem make_report_top_five:
  "rep_top_five (make_report ts kw) =
   py_join '', '' (take 5 (py_sorted_rev (spec_country_avg kw ts) (spec_countries ts)))"
  by (simp add: make_report_def Let_def top_countries_loop)

text \<open>(C4) The ranking keeps the best countries: a country with data that is not among the top five has an average no higher than any listed country.\<close>

theorem top_countries_optimal:
  assumes "c \<in> set (spec_countries ts)" and "c \<notin> set (top_countries (report_loop kw ts))"
    and "d \<in> set (top_countries (report_loop kw ts))"
  shows "spec_country_avg kw ts c \<le> spec_country_avg kw ts d"
proof -
  let ?ys = "py_sorted_rev (spec_country_avg kw ts) (spec_countries ts)"
  have d: "d \<in> set (take 5 ?ys)" using assms(3) by (simp add: top_countries_loop)
  have "c \<in> set (take 5 ?ys) \<union> set (drop 5 ?ys)"
    using assms(1) set_append [of "take 5 ?ys" "drop 5 ?ys"] by simp
  then have c: "c \<in> set (drop 5 ?ys)" using assms(2) by (simp add: top_countries_loop)
  show ?thesis
    using sorted_wrt_take_drop [OF sorted_py_sorted_rev d c] .
qed

text \<open>(C5) The top countries are listed in non-increasing order of average score.\<close>

theorem top_countries_sorted:
  "sorted_wrt (\<lambda>x y. spec_country_avg kw ts y \<le> spec_country_avg kw ts x) (top_countries (report_loop kw ts))"
  by (simp add: top_countries_loop sorted_wrt_take sorted_py_sorted_rev)

text \<open>(C6) Tie-break: countries with equal averages appear in the ranking in the order in which their first tweet appears in the input (a prefix of that order).\<close>

theorem top_countries_ties:
  "\<exists>n. filter (\<lambda>c. spec_country_avg kw ts c = a) (top_countries (report_loop kw ts)) =
       take n (filter (\<lambda>c. spec_country_avg kw ts c = a) (spec_countries ts))"
  using filter_take_prefix [of "\<lambda>c. spec_country_avg kw ts c = a" 5 "py_sorted_rev (spec_country_avg kw ts) (spec_countries ts)"]
  by (simp add: top_countries_loop py_sorted_rev_stable)

text \<open>(C7) Invariant of the loop: after any number of tweets the two country dicts have distinct keys, the same keys in the same order, and a positive count for every key, so the sort key of line 136 never raises and never divides by zero.\<close>

theorem report_loop_inv: "report_inv (report_loop kw ts)"
  by (simp add: report_loop_def foldl_report_inv report_inv_init)

text \<open>(C8) The ranking lists at most five distinct countries, all with data, and exactly five when at least five countries have data.\<close>

theorem top_countries_bounds:
  "length (top_countries (report_loop kw ts)) = min 5 (length (spec_countries ts)) \<and>
   distinct (top_countries (report_loop kw ts)) \<and>
   set (top_countries (report_loop kw ts)) \<subseteq> set (spec_countries ts)"
proof -
  have "distinct (spec_countries ts)" by (simp add: spec_countries_def)
  then show ?thesis
    by (auto simp: top_countries_loop length_py_sorted_rev dest: in_set_takeD)
qed

text \<open>Engagement counters are independent: a retweeted but not favourited tweet increments the retweet count and total only, and leaves the favourite count and total unchanged.\<close>

theorem report_step_engagement:
  assumes "0 < retweet t" and "\<not> 0 < favorite t"
  shows "num_retweet (report_step kw st t) = num_retweet st + 1 \<and>
         tot_retweet (report_step kw st t) = tot_retweet st + tweet_score kw t \<and>
         num_favorite (report_step kw st t) = num_favorite st \<and>
         tot_favorite (report_step kw st t) = tot_favorite st"
  using assms by (simp add: report_step_simps)

text \<open>(C10) A tweet whose country is \<open>NULL\<close> leaves both country dicts unchanged but is still counted in exactly one sentiment class.\<close>

theorem report_step_null_country:
  assumes "country t = ''NULL''"
  shows "country_sentiment (report_step kw st t) = country_sentiment st \<and>
         country_counts (report_step kw st t) = country_counts st \<and>
         num_positive (report_step kw st t) + num_negative (report_step kw st t)
           + num_neutral (report_step kw st t) = num_positive st + num_negative st + num_neutral st + 1"
  using assms by (simp add: report_step_simps has_country_def)

text \<open>(C11) On an empty tweet list every count is zero, every average is not available (\<open>None\<close>, the string \<open>NAN\<close> of the source) and the top-five list is empty.\<close>

theorem make_report_empty:
  "make_report [] kw = \<lparr>rep_avg_favorite = None, rep_avg_retweet = None, rep_avg_sentiment = None,
     rep_num_tweets = 0, rep_num_favorite = 0, rep_num_retweet = 0, rep_num_positive = 0,
     rep_num_negative = 0, rep_num_neutral = 0, rep_top_five = []\<rparr>"
  by (simp add: make_report_def report_loop_def report_init_def top_countries_def py_avg_def dict_keys_def)

text \<open>(C12) When no tweet has a country, the top-five field is the empty string.\<close>

theorem make_report_no_country:
  "(\<forall>t \<in> set ts. \<not> has_country (country t)) \<Longrightarrow> rep_top_five (make_report ts kw) = []"
  by (simp add: make_report_def Let_def top_countries_loop spec_countries_def filter_False)

text \<open>(C13) Order independence: permuting the tweets changes no count and no average of the report (only the tie-break of the ranking depends on the order).\<close>

theorem make_report_perm:
  assumes "mset ts = mset ts'"
  shows "(make_report ts kw)\<lparr>rep_top_five := []\<rparr> = (make_report ts' kw)\<lparr>rep_top_five := []\<rparr>"
proof -
  have m: "\<And>P. mset (filter P ts) = mset (filter P ts')"
    by (simp add: assms)
  have len: "\<And>P. length (filter P ts) = length (filter P ts')"
    using m by (metis size_mset)
  have sum: "\<And>P. sum_list (map (tweet_score kw) (filter P ts)) = sum_list (map (tweet_score kw) (filter P ts'))"
    using m by (simp only: sum_list_map_mset)
  have "length ts = length ts'" using assms by (metis size_mset)
  moreover have "sum_list (map (tweet_score kw) ts) = sum_list (map (tweet_score kw) ts')"
    using sum [of "\<lambda>_. True"] by simp
  ultimately show ?thesis
    by (simp add: make_report_def Let_def report_loop_fields len sum)
qed

text \<open>(C9) The report computation raises no exception on realistic data: when the
  absolute scores of all tweets sum to less than \<open>2^1023\<close>, no average and no sort
  key overflows, and the computation with its exceptions returns the report.\<close>

theorem make_report_py_no_overflow:
  assumes "sum_list (map (\<lambda>t. \<bar>tweet_score kw t\<bar>) ts) < 2 ^ 1023"
  shows "make_report_py ts kw = Inr (make_report ts kw)"
proof -
  have b: "\<bar>sum_list (map (tweet_score kw) (filter P ts))\<bar> < 2 ^ 1023" for P
    using abs_sum_filter_le [of "tweet_score kw" P ts] assms by linarith
  have "\<not> report_overflow (report_loop kw ts) (length ts)"
  proof (rule no_report_overflow)
    show "\<bar>total_sentiment (report_loop kw ts)\<bar> < 2 ^ 1023"
      using b [of "\<lambda>_. True"] by (simp add: report_loop_fields)
    show "\<bar>tot_retweet (report_loop kw ts)\<bar> < 2 ^ 1023"
      using b by (simp add: report_loop_fields)
    show "\<bar>tot_favorite (report_loop kw ts)\<bar> < 2 ^ 1023"
      using b by (simp add: report_loop_fields)
    show "list_all (\<lambda>k. \<bar>dict_get (country_sentiment (report_loop kw ts)) k 0\<bar> < 2 ^ 1023)
        (dict_keys (country_sentiment (report_loop kw ts)))"
      using b by (simp add: list_all_iff country_sum_loop country_tweets_def)
  qed
  then show ?thesis by (simp add: make_report_py_eq)
qed

end
