(* ===== verification/Readers.thy ===== *)
theory Readers
  imports Scoring Tweet PyNum
begin

text \<open>
  The readers of \<open>src/sentiment_analysis.py\<close>: \<open>read_keywords\<close> (lines 8--26) and
  \<open>read_tweets\<close> (lines 49--85). A file is its contents, or \<open>None\<close> when \<open>open\<close>
  raises \<open>IOError\<close>; iterating over it yields \<open>py_lines\<close>. Each reader returns the
  lines it prints and its result. Only \<open>IOError\<close> is caught: the \<open>IndexError\<close> and
  \<open>ValueError\<close> raised while parsing a line propagate to the caller as \<open>Inl\<close>.
  Every exception is raised at the first failing subexpression in Python's evaluation
  order (a dict comprehension evaluates the key before the value; a dict display
  evaluates its entries from left to right).
\<close>

type_synonym py_file = "string option"

abbreviation TAB :: char where "TAB \<equiv> char_of (9::nat)"

definition could_not_open :: "string \<Rightarrow> string" where
  "could_not_open name = ''Could not open file '' @ name @ ''!''"

text \<open>Line 21: \<open>{line.split('\t')[0]: int(line.split('\t')[1]) for line in file}\<close>.\<close>

fun keyword_lines :: "keyword_dict \<Rightarrow> string list \<Rightarrow> keyword_dict py_result" where
  "keyword_lines d [] = Inr d"
| "keyword_lines d (line # rest) =
     py_bind (py_index (py_split_sep TAB line) 0) (\<lambda>k.
     py_bind (py_index (py_split_sep TAB line) 1) (\<lambda>v.
     py_bind (py_int_of_str v) (\<lambda>w.
     keyword_lines (dict_set d k w) rest)))"

definition read_keywords :: "string \<Rightarrow> py_file \<Rightarrow> string list \<times> keyword_dict py_result" where
  "read_keywords keyword_file_name f = (case f of
      None \<Rightarrow> ([could_not_open keyword_file_name], Inr [])
    | Some contents \<Rightarrow> ([], keyword_lines [] (py_lines contents)))"

text \<open>Lines 74--75: \<open>float(c) if c != 'NULL' else 'NULL'\<close>.\<close>

definition null_or_float_of :: "string \<Rightarrow> null_or_float py_result" where
  "null_or_float_of c = (if c \<noteq> ''NULL'' then py_bind (py_float_of_str c) (\<lambda>x. Inr (Float x)) else Inr NULL)"

text \<open>Lines 59--76: split the stripped line at commas and build the tweet dict. The
  country, state and city entries are \<open>c if c != 'NULL' else 'NULL'\<close>, which is
  \<open>c\<close> in both branches.\<close>

definition parse_tweet :: "string \<Rightarrow> tweet py_result" where
  "parse_tweet line = (let components = py_split_sep (CHR '','') (py_strip line) in
     py_bind (py_index components 0) (\<lambda>c0.
     py_bind (py_index components 1) (\<lambda>c1.
     py_bind (py_index components 2) (\<lambda>c2.
     py_bind (py_index components 3) (\<lambda>c3. py_bind (py_int_of_str c3) (\<lambda>rt.
     py_bind (py_index components 4) (\<lambda>c4. py_bind (py_int_of_str c4) (\<lambda>fav.
     py_bind (py_index components 5) (\<lambda>c5.
     py_bind (py_index components 6) (\<lambda>c6.
     py_bind (py_index components 7) (\<lambda>c7.
     py_bind (py_index components 8) (\<lambda>c8.
     py_bind (py_index components 9) (\<lambda>c9. py_bind (null_or_float_of c9) (\<lambda>la.
     py_bind (py_index components 10) (\<lambda>c10. py_bind (null_or_float_of c10) (\<lambda>lo.
     Inr \<lparr>date = c0, tweet_text = clean_tweet_text c1, user = c2, retweet = rt, favorite = fav,
          lang = c5, country = (if c6 \<noteq> ''NULL'' then c6 else ''NULL''),
          state = (if c7 \<noteq> ''NULL'' then c7 else ''NULL''),
          city = (if c8 \<noteq> ''NULL'' then c8 else ''NULL''), lat = la, lon = lo\<rparr>))))))))))))))))"

text \<open>Lines 56--78: the loop appends each parsed tweet; the first exception ends it.\<close>

fun tweet_lines :: "tweet list \<Rightarrow> string list \<Rightarrow> tweet list py_result" where
  "tweet_lines tweets [] = Inr tweets"
| "tweet_lines tweets (line # rest) =
     py_bind (parse_tweet line) (\<lambda>tw. tweet_lines (tweets @ [tw]) rest)"

definition read_tweets :: "string \<Rightarrow> py_file \<Rightarrow> string list \<times> tweet list py_result" where
  "read_tweets tweet_file_name f = (case f of
      None \<Rightarrow> ([could_not_open tweet_file_name], Inr [])
    | Some contents \<Rightarrow> ([], tweet_lines [] (py_lines contents)))"

section \<open>The file formats of the specification\<close>

text \<open>The formats of the specification's collaborators (section 6), as functions that
  write a table or a tweet in them: \<open>keyword_file\<close> (one \<open>keyword TAB weight\<close> line per
  entry) and \<open>tweet_csv_line\<close> (the eleven fields joined by commas, coordinates
  \<open>NULL\<close>). \<open>csv_safe\<close> says a tweet can be written so: no comma or newline in a
  field, no coordinates, no leading whitespace.\<close>

definition keyword_file :: "keyword_dict \<Rightarrow> string" where
  "keyword_file kws = concat (map (\<lambda>(k, w). k @ TAB # py_str_int w @ [CHR ''\<newline>'']) kws)"

definition tweet_csv_line :: "tweet \<Rightarrow> string" where
  "tweet_csv_line t = py_join '','' [date t, tweet_text t, user t, py_str_int (retweet t),
     py_str_int (favorite t), lang t, country t, state t, city t, ''NULL'', ''NULL'']"

definition csv_safe :: "tweet \<Rightarrow> bool" where
  "csv_safe t = ((\<forall>f \<in> set [date t, tweet_text t, user t, lang t, country t, state t, city t].
       CHR '','' \<notin> set f \<and> CHR ''\<newline>'' \<notin> set f) \<and>
     lat t = NULL \<and> lon t = NULL \<and> (date t = [] \<or> \<not> py_isspace (hd (date t))))"


section \<open>Lemmas\<close>

lemma tab_ne: "TAB \<noteq> CHR ''\<newline>''" "TAB \<noteq> CHR ''-''" "CHR ''\<newline>'' \<noteq> CHR ''-''"
  by (auto dest: arg_cong [where f = "of_char :: char \<Rightarrow> nat"])

lemma keyword_lines_file:
  "distinct (map fst kws) \<Longrightarrow> (\<forall>k \<in> set (map fst kws). k \<notin> set (dict_keys d) \<and> TAB \<notin> set k) \<Longrightarrow>
   keyword_lines d (map (\<lambda>(k, w). k @ TAB # py_str_int w @ [CHR ''\<newline>'']) kws) = Inr (d @ kws)"
proof (induction kws arbitrary: d)
  case Nil
  then show ?case by simp
next
  case (Cons kw kws)
  obtain k w where kw: "kw = (k, w)" by (cases kw)
  have notab: "TAB \<notin> set (py_str_int w @ [CHR ''\<newline>''])"
    using py_str_int_chars [of TAB w] by (auto simp: py_isdigit_special tab_ne tab_ne [THEN not_sym])
  have split: "py_split_sep TAB (k @ TAB # py_str_int w @ [CHR ''\<newline>'']) = [k, py_str_int w @ [CHR ''\<newline>'']]"
    using Cons.prems(2) notab kw by (simp add: py_split_sep_def split_sep_scan_field split_sep_scan_last)
  have int: "py_int_of_str (py_str_int w @ [CHR ''\<newline>'']) = Inr w"
    by (simp add: py_int_of_str_snoc_space py_isspace_def py_int_of_str_py_str_int)
  have new: "dict_set d k w = d @ [(k, w)]"
    using Cons.prems(2) kw by (simp add: dict_set_new)
  have "keyword_lines (d @ [(k, w)]) (map (\<lambda>(k, w). k @ TAB # py_str_int w @ [CHR ''\<newline>'']) kws) = Inr (d @ [(k, w)] @ kws)"
    using Cons.IH [of "d @ [(k, w)]"] Cons.prems kw by (auto simp: dict_keys_def)
  then show ?case by (simp add: kw split int new py_index_def)
qed

lemma newline_not_in_keyword_line:
  "CHR ''\<newline>'' \<notin> set k \<Longrightarrow> CHR ''\<newline>'' \<notin> set (k @ TAB # py_str_int w)"
  using py_str_int_chars [of "CHR ''\<newline>''" w] by (auto simp: py_isdigit_special tab_ne tab_ne [THEN not_sym])

lemma comma_not_in_py_str_int: "CHR '','' \<notin> set (py_str_int i)"
  using py_str_int_chars [of "CHR '',''" i] py_isdigit_special by auto

lemma hd_py_join: "w \<noteq> [] \<Longrightarrow> hd (py_join sep (w # ws)) = hd w"
  by (cases ws) simp_all

lemma py_join_comma_hd:
  "hd (py_join '','' (w # v # ws)) = (if w = [] then CHR '','' else hd w)"
  by simp

lemma if_null_id: "(if c \<noteq> ''NULL'' then c else ''NULL'') = c"
  by simp

lemma py_join_snoc:
  "py_join sep (xs @ [w]) = (if xs = [] then w else py_join sep xs @ sep @ w)"
  by (induction sep xs rule: py_join.induct) auto

lemma py_join_split_field:
  "py_join sep (w # (a @ sep @ b) # vs) = py_join sep (w # a # b # vs)"
  by (cases vs) simp_all

lemma py_strip_tweet_line:
  assumes "d = [] \<or> \<not> py_isspace (hd d)"
  shows "py_strip (py_join '','' (d # fs @ [''NULL''])) = py_join '','' (d # fs @ [''NULL''])"
proof (rule py_strip_id)
  have j: "py_join '','' (d # fs @ [''NULL'']) = d @ '','' @ py_join '','' (fs @ [''NULL''])"
    by (cases "fs @ [''NULL'']") auto
  show "py_join '','' (d # fs @ [''NULL'']) \<noteq> []" by (simp add: j)
  show "\<not> py_isspace (hd (py_join '','' (d # fs @ [''NULL''])))"
    using assms by (auto simp: j py_isspace_def hd_append)
  show "\<not> py_isspace (last (py_join '','' (d # fs @ [''NULL''])))"
    by (simp add: j py_join_snoc py_isspace_def last_append)
qed

text \<open>A line is read purely by position: its first eleven comma-separated fields
  fill the tweet, and any further field is ignored.\<close>

lemma parse_tweet_fields:
  assumes "11 \<le> length fs" and "\<forall>f \<in> set fs. CHR '','' \<notin> set f"
    and "py_strip (py_join '','' fs) = py_join '','' fs"
  shows "parse_tweet (py_join '','' fs) =
    py_bind (py_int_of_str (fs ! 3)) (\<lambda>rt. py_bind (py_int_of_str (fs ! 4)) (\<lambda>fav.
    py_bind (null_or_float_of (fs ! 9)) (\<lambda>la. py_bind (null_or_float_of (fs ! 10)) (\<lambda>lo.
    Inr \<lparr>date = fs ! 0, tweet_text = clean_tweet_text (fs ! 1), user = fs ! 2, retweet = rt,
         favorite = fav, lang = fs ! 5, country = fs ! 6, state = fs ! 7, city = fs ! 8,
         lat = la, lon = lo\<rparr>))))"
proof -
  have ne: "fs \<noteq> []" using assms(1) by auto
  then have "py_split_sep (CHR '','') (py_join '','' fs) = fs"
    using assms(2) by (rule py_split_sep_join)
  then show ?thesis using assms(1) ne
    by (simp add: parse_tweet_def Let_def assms(3) py_index_def if_null_id)
qed

lemma parse_tweet_line:
  assumes "csv_safe t"
  shows "parse_tweet (tweet_csv_line t) = Inr (t\<lparr>tweet_text := clean_tweet_text (tweet_text t)\<rparr>)"
proof -
  from assms have a1: "\<forall>f \<in> set [date t, tweet_text t, user t, lang t, country t, state t, city t]. CHR '','' \<notin> set f"
    and a2: "lat t = NULL" and a3: "lon t = NULL" and a4: "date t = [] \<or> \<not> py_isspace (hd (date t))"
    by (auto simp: csv_safe_def)
  let ?fs = "[date t, tweet_text t, user t, py_str_int (retweet t), py_str_int (favorite t), lang t,
              country t, state t, city t, ''NULL'', ''NULL'']"
  have sp: "\<not> py_isspace (CHR '','')" "\<not> py_isspace (CHR ''L'')" by (simp_all add: py_isspace_def)
  have ne: "tweet_csv_line t \<noteq> []" by (simp add: tweet_csv_line_def)
  have hd: "\<not> py_isspace (hd (tweet_csv_line t))"
    using a4 sp by (auto simp: tweet_csv_line_def hd_append)
  have "last (tweet_csv_line t) = CHR ''L''"
    by (simp add: tweet_csv_line_def last_append)
  then have last: "\<not> py_isspace (last (tweet_csv_line t))" using sp by simp
  have strip: "py_strip (tweet_csv_line t) = tweet_csv_line t"
    using ne hd last by (rule py_strip_id)
  have "\<forall>w \<in> set ?fs. CHR '','' \<notin> set w"
    using a1 comma_not_in_py_str_int by auto
  then have split: "py_split_sep (CHR '','') (tweet_csv_line t) = ?fs"
    unfolding tweet_csv_line_def by (intro py_split_sep_join) simp_all
  have "parse_tweet (tweet_csv_line t) = Inr \<lparr>date = date t, tweet_text = clean_tweet_text (tweet_text t),
      user = user t, retweet = retweet t, favorite = favorite t, lang = lang t,
      country = country t, state = state t, city = city t, lat = NULL, lon = NULL\<rparr>"
    by (simp add: parse_tweet_def Let_def strip split py_index_def py_int_of_str_py_str_int null_or_float_of_def)
  then show ?thesis
    using a2 a3 by (cases t) simp
qed

lemma parse_tweet_snoc_space: "py_isspace c \<Longrightarrow> parse_tweet (s @ [c]) = parse_tweet s"
  by (simp add: parse_tweet_def py_strip_snoc_space)

lemma newline_not_in_py_str_int: "CHR ''\<newline>'' \<notin> set (py_str_int i)"
  using py_str_int_chars [of "CHR ''\<newline>''" i] py_isdigit_special tab_ne by auto

lemma newline_not_in_csv_line: "csv_safe t \<Longrightarrow> CHR ''\<newline>'' \<notin> set (tweet_csv_line t)"
  using set_py_join [of "'',''" "[date t, tweet_text t, user t, py_str_int (retweet t),
     py_str_int (favorite t), lang t, country t, state t, city t, ''NULL'', ''NULL'']"]
    newline_not_in_py_str_int
  by (auto simp: csv_safe_def tweet_csv_line_def)

lemma tweet_lines_csv:
  "\<forall>t \<in> set ts. csv_safe t \<Longrightarrow>
   tweet_lines acc (map (\<lambda>t. tweet_csv_line t @ [CHR ''\<newline>'']) ts) =
     Inr (acc @ map (\<lambda>t. t\<lparr>tweet_text := clean_tweet_text (tweet_text t)\<rparr>) ts)"
  by (induction ts arbitrary: acc)
     (simp_all add: parse_tweet_snoc_space py_isspace_def parse_tweet_line)

lemma keyword_lines_of_file:
  assumes "distinct (map fst kws)" and "\<forall>k \<in> set (map fst kws). TAB \<notin> set k \<and> CHR ''\<newline>'' \<notin> set k"
  shows "keyword_lines [] (py_lines (keyword_file kws)) = Inr kws"
proof -
  let ?ls = "map (\<lambda>(k, w). k @ TAB # py_str_int w) kws"
  have kf: "keyword_file kws = concat (map (\<lambda>l. l @ [CHR ''\<newline>'']) ?ls)"
    by (induction kws) (auto simp: keyword_file_def)
  have "\<forall>l \<in> set ?ls. CHR ''\<newline>'' \<notin> set l"
    using assms(2) newline_not_in_keyword_line by auto
  then have "py_lines (concat (map (\<lambda>l. l @ [CHR ''\<newline>'']) ?ls)) = map (\<lambda>l. l @ [CHR ''\<newline>'']) ?ls"
    by (rule py_lines_concat)
  moreover have "map (\<lambda>l. l @ [CHR ''\<newline>'']) ?ls = map (\<lambda>(k, w). k @ TAB # py_str_int w @ [CHR ''\<newline>'']) kws"
    by (induction kws) auto
  ultimately have "py_lines (keyword_file kws) = map (\<lambda>(k, w). k @ TAB # py_str_int w @ [CHR ''\<newline>'']) kws"
    by (simp only: kf)
  then show ?thesis
    using keyword_lines_file [of kws "[]"] assms by simp
qed

lemma tweet_lines_of_file:
  assumes "\<forall>t \<in> set ts. csv_safe t"
  shows "tweet_lines [] (py_lines (concat (map (\<lambda>t. tweet_csv_line t @ [CHR ''\<newline>'']) ts))) =
         Inr (map (\<lambda>t. t\<lparr>tweet_text := clean_tweet_text (tweet_text t)\<rparr>) ts)"
proof -
  have "\<forall>l \<in> set (map tweet_csv_line ts). CHR ''\<newline>'' \<notin> set l"
    using assms newline_not_in_csv_line by auto
  then have "py_lines (concat (map (\<lambda>l. l @ [CHR ''\<newline>'']) (map tweet_csv_line ts)))
             = map (\<lambda>l. l @ [CHR ''\<newline>'']) (map tweet_csv_line ts)"
    by (rule py_lines_concat)
  then have "py_lines (concat (map (\<lambda>t. tweet_csv_line t @ [CHR ''\<newline>'']) ts))
             = map (\<lambda>t. tweet_csv_line t @ [CHR ''\<newline>'']) ts"
    by (simp add: comp_def)
  then show ?thesis using tweet_lines_csv [OF assms, of "[]"] by simp
qed

section \<open>Properties of the readers\<close>





text \<open>(C16) Round trip of the keyword file: a table with distinct keywords, written in the file format of the specification (keyword, tab, \<open>str(weight)\<close>, newline per entry), is read back by \<open>read_keywords\<close> as the same dict, in the same order, printing nothing.\<close>

theorem read_keywords_roundtrip:
  assumes "distinct (map fst kws)" and "\<forall>k \<in> set (map fst kws). TAB \<notin> set k \<and> CHR ''\<newline>'' \<notin> set k"
  shows "read_keywords name (Some (keyword_file kws)) = ([], Inr kws)"
  using keyword_lines_of_file [OF assms] by (simp add: read_keywords_def)

text \<open>(C17) A keyword line without a tab (a blank line included) raises \<open>IndexError\<close> at \<open>line.split('\t')[1]\<close>; \<open>read_keywords\<close> does not catch it, so it aborts the whole read.\<close>

theorem keyword_lines_no_tab:
  "TAB \<notin> set line \<Longrightarrow> keyword_lines d (line # rest) = Inl IndexError"
  by (simp add: py_index_def length_py_split_sep filter_empty_conv)

text \<open>(C18) Round trip of the tweet file: tweets whose fields contain no comma or newline, with no coordinates, written one per line in the comma-separated format of the specification, are read back by \<open>read_tweets\<close> in order, with their text cleaned and every other field unchanged.\<close>

theorem read_tweets_roundtrip:
  assumes "\<forall>t \<in> set ts. csv_safe t"
  shows "read_tweets name (Some (concat (map (\<lambda>t. tweet_csv_line t @ [CHR ''\<newline>'']) ts))) =
         ([], Inr (map (\<lambda>t. t\<lparr>tweet_text := clean_tweet_text (tweet_text t)\<rparr>) ts))"
  using tweet_lines_of_file [OF assms] by (simp add: read_tweets_def)

text \<open>(C19) A line with fewer than four comma-separated fields raises \<open>IndexError\<close> before any numeric field is parsed.\<close>

theorem parse_tweet_short_line:
  "length (py_split_sep (CHR '','') (py_strip line)) < 4 \<Longrightarrow> parse_tweet line = Inl IndexError"
  by (auto simp: parse_tweet_def Let_def py_index_def)

text \<open>(C20) The tweet line format has no quoting and no field count check: when
  the text of a tweet contains a comma, the line is read with every field after the
  text shifted one place, silently. The text keeps only its part before the comma, the
  part after it becomes the user, the user name is parsed as the retweet count, the
  retweet count becomes the favourite count, the favourite count the language, the
  language the country, the country the state, the state the city, the city is parsed
  as the latitude and the original latitude (\<open>NULL\<close>) as the longitude.\<close>

theorem parse_tweet_comma_shift:
  assumes "csv_safe (t\<lparr>tweet_text := a\<rparr>)" and "CHR '','' \<notin> set b"
  shows "parse_tweet (tweet_csv_line (t\<lparr>tweet_text := a @ CHR '','' # b\<rparr>)) =
    py_bind (py_int_of_str (user t)) (\<lambda>rt. py_bind (null_or_float_of (city t)) (\<lambda>la.
    Inr \<lparr>date = date t, tweet_text = clean_tweet_text a, user = b, retweet = rt,
         favorite = retweet t, lang = py_str_int (favorite t), country = lang t,
         state = country t, city = state t, lat = la, lon = NULL\<rparr>))"
proof -
  let ?fs = "[date t, a, b, user t, py_str_int (retweet t), py_str_int (favorite t), lang t,
              country t, state t, city t, ''NULL'', ''NULL'']"
  have line: "tweet_csv_line (t\<lparr>tweet_text := a @ CHR '','' # b\<rparr>) = py_join '','' ?fs"
    using py_join_split_field [of "date t" a "'',''" b] by (simp add: tweet_csv_line_def)
  from assms(1) have c: "\<forall>f \<in> set [date t, a, user t, lang t, country t, state t, city t]. CHR '','' \<notin> set f"
    and d: "date t = [] \<or> \<not> py_isspace (hd (date t))"
    by (auto simp: csv_safe_def)
  have nc: "\<forall>f \<in> set ?fs. CHR '','' \<notin> set f"
    using c assms(2) comma_not_in_py_str_int by auto
  have strip: "py_strip (py_join '','' ?fs) = py_join '','' ?fs"
    using py_strip_tweet_line [OF d, of "[a, b, user t, py_str_int (retweet t), py_str_int (favorite t),
      lang t, country t, state t, city t, ''NULL'']"] by simp
  have p: "parse_tweet (py_join '','' ?fs) =
    py_bind (py_int_of_str (user t)) (\<lambda>rt. py_bind (py_int_of_str (py_str_int (retweet t))) (\<lambda>fav.
    py_bind (null_or_float_of (city t)) (\<lambda>la. py_bind (null_or_float_of ''NULL'') (\<lambda>lo.
    Inr \<lparr>date = date t, tweet_text = clean_tweet_text a, user = b, retweet = rt,
         favorite = fav, lang = py_str_int (favorite t), country = lang t, state = country t,
         city = state t, lat = la, lon = lo\<rparr>))))"
    using parse_tweet_fields [OF _ nc strip] by simp
  show ?thesis
    unfolding line p by (simp add: py_int_of_str_py_str_int null_or_float_of_def)
qed



end
