(* ===== verification/Program.thy ===== *)
theory Program
  imports Aggregation Readers
begin

text \<open>
  The report writer \<open>write_report\<close> (\<open>src/sentiment_analysis.py\<close>, lines 165--186)
  and the driver \<open>main\<close> (\<open>src/main.py\<close>, lines 13--36), with the module's two
  calls of \<open>main\<close> (lines 39 and 51).

  \<open>write_report\<close> writes ten labelled lines. Counts are printed with \<open>str\<close>
  (\<open>py_str_int\<close>); an average is the string \<open>NAN\<close> or \<open>str\<close> of the
  float \<open>round(x, 2)\<close> (\<open>py_str_float2\<close>, theory \<open>PyFloat\<close>). The model of a
  run returns what is printed and the contents written to the report file (\<open>None\<close>
  when nothing is written). The
  environment of a run is the record \<open>session\<close>: the three names typed at the
  prompts, the contents of the two input files (\<open>None\<close> when \<open>open\<close> fails), and
  whether the report file can be opened for writing.
\<close>

definition show_avg :: "float2 option \<Rightarrow> string" where
  "show_avg a = (case a of None \<Rightarrow> ''NAN'' | Some f \<Rightarrow> py_str_float2 f)"

definition report_lines :: "report \<Rightarrow> string list" where
  "report_lines report =
     [''Average sentiment of all tweets: '' @ show_avg (rep_avg_sentiment report),
      ''Total number of tweets: '' @ py_str_int (int (rep_num_tweets report)),
      ''Number of positive tweets: '' @ py_str_int (int (rep_num_positive report)),
      ''Number of negative tweets: '' @ py_str_int (int (rep_num_negative report)),
      ''Number of neutral tweets: '' @ py_str_int (int (rep_num_neutral report)),
      ''Number of favorited tweets: '' @ py_str_int (int (rep_num_favorite report)),
      ''Average sentiment of favorited tweets: '' @ show_avg (rep_avg_favorite report),
      ''Number of retweeted tweets: '' @ py_str_int (int (rep_num_retweet report)),
      ''Average sentiment of retweeted tweets: '' @ show_avg (rep_avg_retweet report),
      ''Top five countries by average sentiment: '' @ rep_top_five report]"

definition report_text :: "report \<Rightarrow> string" where
  "report_text report = concat (map (\<lambda>l. l @ [CHR ''\<newline>'']) (report_lines report))"

definition write_report :: "report \<Rightarrow> string \<Rightarrow> bool \<Rightarrow> string list \<times> string option" where
  "write_report report output_file writable =
     (if writable then ([''Wrote report to '' @ output_file], Some (report_text report))
      else ([''Could not open file '' @ output_file], None))"

text \<open>What a run prints: a line, or an exception caught by \<open>except Exception as e:
  print(e)\<close>.\<close>

datatype printed = Print string | PrintExc py_error

record session =
  keyword_file_name :: string
  tweet_file_name :: string
  report_file_name :: string
  keyword_contents :: py_file
  tweet_contents :: py_file
  report_writable :: bool

definition empty_input_msg :: string where
  "empty_input_msg = ''Tweet list or keyword dictionary is empty!''"

definition main :: "session \<Rightarrow> printed list \<times> string option" where
  "main s =
     (let (out1, rk) = read_keywords (keyword_file_name s) (keyword_contents s) in
      case rk of
        Inl e \<Rightarrow> (map Print out1 @ [PrintExc e], None)
      | Inr keywords \<Rightarrow>
          if keywords = [] then (map Print out1 @ [PrintExc (PyException empty_input_msg)], None)
          else (let (out2, rt) = read_tweets (tweet_file_name s) (tweet_contents s) in
                case rt of
                  Inl e \<Rightarrow> (map Print (out1 @ out2) @ [PrintExc e], None)
                | Inr tweets \<Rightarrow>
                    if tweets = [] then (map Print (out1 @ out2) @ [PrintExc (PyException empty_input_msg)], None)
                    else (case make_report_py tweets keywords of
                            Inl e \<Rightarrow> (map Print (out1 @ out2) @ [PrintExc e], None)
                          | Inr report \<Rightarrow>
                              (let (out3, written) = write_report report (report_file_name s) (report_writable s)
                               in (map Print (out1 @ out2 @ out3), written)))))"

text \<open>The module body of \<open>main.py\<close> calls \<open>main()\<close> twice; each call prompts again.\<close>

definition main_module :: "session \<Rightarrow> session \<Rightarrow> (printed list \<times> string option) list" where
  "main_module s1 s2 = [main s1, main s2]"

text \<open>Reading the report format back (the specification's one labelled line per
  field): the text after the first colon and the space that follows it.\<close>

definition report_field :: "string \<Rightarrow> string" where
  "report_field l = drop 2 (dropWhile (\<lambda>c. c \<noteq> CHR '':'') l)"

section \<open>Lemmas\<close>

lemma newline_not_in_show_avg: "CHR ''\<newline>'' \<notin> set (show_avg a)"
  using py_str_float2_chars py_isdigit_special(2)
  by (fastforce simp: show_avg_def split: option.splits)

lemma newline_not_in_report_lines:
  "CHR ''\<newline>'' \<notin> set (rep_top_five r) \<Longrightarrow>
   \<forall>l \<in> set (report_lines r). CHR ''\<newline>'' \<notin> set l"
  by (auto simp: report_lines_def newline_not_in_show_avg newline_not_in_py_str_int)

lemma py_lines_report_text:
  "CHR ''\<newline>'' \<notin> set (rep_top_five r) \<Longrightarrow>
   py_lines (report_text r) = map (\<lambda>l. l @ [CHR ''\<newline>'']) (report_lines r)"
  unfolding report_text_def by (rule py_lines_concat) (rule newline_not_in_report_lines)

lemma py_round2_sign:
  "(f2_neg (py_round2 x) \<longrightarrow> f2_cents (py_round2 x) \<le> 0) \<and>
   (\<not> f2_neg (py_round2 x) \<longrightarrow> 0 \<le> f2_cents (py_round2 x))"
  by (simp add: py_round2_def round_half_even_neg round_half_even_nonneg)

lemma float_of_show_py_avg:
  "py_float_of_str (show_avg (py_avg t n) @ [CHR ''\<newline>'']) =
   Inr (case py_avg t n of None \<Rightarrow> FloatNaN | Some f \<Rightarrow> FloatNum (of_int (f2_cents f) / 100))"
proof -
  have nl: "py_float_of_str (s @ [CHR ''\<newline>'']) = py_float_of_str s" for s
    by (simp add: py_float_of_str_def py_strip_snoc_space py_isspace_def)
  have nan: "py_float_of_str ''NAN'' = Inr FloatNaN" by code_simp
  show ?thesis
    using py_float_of_str_float2 py_round2_sign
    by (simp add: nl nan show_avg_def py_avg_def)
qed

lemma main_reads_ok:
  assumes "read_keywords (keyword_file_name s) (keyword_contents s) = ([], Inr kw)" and "kw \<noteq> []"
    and "read_tweets (tweet_file_name s) (tweet_contents s) = ([], Inr ts)" and "ts \<noteq> []"
    and "report_writable s" and "\<not> report_overflow (report_loop kw ts) (length ts)"
  shows "main s = ([Print (''Wrote report to '' @ report_file_name s)], Some (report_text (make_report ts kw)))"
  using assms by (simp add: main_def write_report_def make_report_py_eq)

section \<open>Properties of main and write_report\<close>

text \<open>(C21) End to end: when the keyword file and the tweet file hold a non-empty table and non-empty tweet list in the formats of the specification and the report file can be written, \<open>main\<close> prints only the confirmation and writes exactly the report of \<open>make_report\<close> on the tweets (text cleaned) and the table; unless an average or a country's sort key overflows the float range, in which case the \<open>OverflowError\<close> is printed and nothing is written.\<close>

theorem main_end_to_end:
  assumes "kws \<noteq> []" and "distinct (map fst kws)"
    and "\<forall>k \<in> set (map fst kws). TAB \<notin> set k \<and> CHR ''\<newline>'' \<notin> set k"
    and "ts \<noteq> []" and "\<forall>t \<in> set ts. csv_safe t"
    and "keyword_contents s = Some (keyword_file kws)"
    and "tweet_contents s = Some (concat (map (\<lambda>t. tweet_csv_line t @ [CHR ''\<newline>'']) ts))"
    and "report_writable s"
  shows "main s =
     (let cleaned = map (\<lambda>t. t\<lparr>tweet_text := clean_tweet_text (tweet_text t)\<rparr>) ts in
      if report_overflow (report_loop kws cleaned) (length ts) then ([PrintExc OverflowError], None)
      else ([Print (''Wrote report to '' @ report_file_name s)], Some (report_text (make_report cleaned kws))))"
proof -
  have k: "read_keywords (keyword_file_name s) (keyword_contents s) = ([], Inr kws)"
    using keyword_lines_of_file [OF assms(2,3)] assms(6) by (simp add: read_keywords_def)
  have t: "read_tweets (tweet_file_name s) (tweet_contents s) =
           ([], Inr (map (\<lambda>t. t\<lparr>tweet_text := clean_tweet_text (tweet_text t)\<rparr>) ts))"
    using tweet_lines_of_file [OF assms(5)] assms(7) by (simp add: read_tweets_def)
  show ?thesis
    using k t assms(1,4,8) by (simp add: main_def write_report_def make_report_py_eq Let_def)
qed

text \<open>(C22) When the keyword file cannot be opened, \<open>main\<close> prints the open failure and then the empty-input error, never reads the tweet file and writes no report.\<close>

theorem main_keywords_unreadable:
  "keyword_contents s = None \<Longrightarrow>
   main s = ([Print (could_not_open (keyword_file_name s)), PrintExc (PyException empty_input_msg)], None)"
  by (simp add: main_def read_keywords_def)

text \<open>(C23) When the first line of the keyword file has no tab, the \<open>IndexError\<close> escapes \<open>read_keywords\<close>, \<open>main\<close> prints it and writes no report.\<close>

theorem main_keyword_line_error:
  "keyword_contents s = Some (l @ CHR ''\<newline>'' # rest) \<Longrightarrow> TAB \<notin> set l \<Longrightarrow>
   CHR ''\<newline>'' \<notin> set l \<Longrightarrow>
   main s = ([PrintExc IndexError], None)"
  using tab_ne
  by (simp add: main_def read_keywords_def py_lines_def lines_scan_line py_index_def
      length_py_split_sep filter_empty_conv)

text \<open>(C24) The count lines of the written report can be read back: the text after the label of each count line parses with \<open>int()\<close> to the count in the report.\<close>

theorem report_counts_readable:
  assumes "CHR ''\<newline>'' \<notin> set (rep_top_five r)"
  shows "map (\<lambda>i. py_int_of_str (report_field (py_lines (report_text r) ! i))) [1, 2, 3, 4, 5, 7] =
         map (\<lambda>n. Inr (int n)) [rep_num_tweets r, rep_num_positive r, rep_num_negative r,
                                 rep_num_neutral r, rep_num_favorite r, rep_num_retweet r]"
proof -
  have "py_lines (report_text r) = map (\<lambda>l. l @ [CHR ''\<newline>'']) (report_lines r)"
    using assms by (rule py_lines_report_text)
  moreover have "py_int_of_str (py_str_int i @ [CHR ''\<newline>'']) = Inr i" for i
    by (simp add: py_int_of_str_snoc_space py_isspace_def py_int_of_str_py_str_int)
  ultimately show ?thesis
    by (simp add: report_lines_def report_field_def)
qed

text \<open>(C25) When no tweet is favourited, the favourite-average line of the report reads \<open>NAN\<close>, the not-available marker of the specification, and no division happens.\<close>

theorem report_nan_favorite:
  "\<forall>t \<in> set ts. favorite t \<le> 0 \<Longrightarrow>
   report_lines (make_report ts kw) ! 6 = ''Average sentiment of favorited tweets: NAN''"
  by (simp add: report_lines_def make_report_def Let_def report_loop_fields py_avg_def show_avg_def
      filter_empty_conv not_less)

text \<open>Examples of CPython's rounding of an average: \<open>round(total / n, 2)\<close> rounds the
  binary64 quotient, not the exact one, half to even, and keeps the sign of a negative
  average that rounds to zero. So \<open>1/200\<close> prints \<open>0.01\<close> (its double lies above
  the tie), \<open>107/40 = 2.675\<close> prints \<open>2.67\<close> (its double lies below), the exact ties
  \<open>1/8\<close> and \<open>3/8\<close> print \<open>0.12\<close> and \<open>0.38\<close>, \<open>-1/1000\<close> prints \<open>-0.0\<close>, and
  \<open>5/1\<close> prints \<open>5.0\<close>.\<close>

lemma show_avg_rounding:
  "show_avg (py_avg 1 200) = ''0.01'' \<and> show_avg (py_avg 107 40) = ''2.67'' \<and>
   show_avg (py_avg 1 8) = ''0.12'' \<and> show_avg (py_avg 3 8) = ''0.38'' \<and>
   show_avg (py_avg (-1) 1000) = ''-0.0'' \<and> show_avg (py_avg 5 1) = ''5.0''"
  by code_simp

text \<open>(C26) The average lines of the written report read back: the text after the
  label of each average line parses with \<open>float()\<close> to the decimal value of the
  rounded average of the report, and the not-available marker \<open>NAN\<close> parses to a
  float NaN.\<close>

theorem report_avgs_readable:
  assumes "CHR ''\<newline>'' \<notin> set (rep_top_five (make_report ts kw))"
  shows "map (\<lambda>i. py_float_of_str (report_field (py_lines (report_text (make_report ts kw)) ! i))) [0, 6, 8] =
         map (\<lambda>a. Inr (case a of None \<Rightarrow> FloatNaN | Some f \<Rightarrow> FloatNum (of_int (f2_cents f) / 100)))
           [rep_avg_sentiment (make_report ts kw), rep_avg_favorite (make_report ts kw),
            rep_avg_retweet (make_report ts kw)]"
proof -
  have "py_lines (report_text (make_report ts kw)) =
        map (\<lambda>l. l @ [CHR ''\<newline>'']) (report_lines (make_report ts kw))"
    using assms by (rule py_lines_report_text)
  then show ?thesis
    by (simp add: report_lines_def report_field_def make_report_def Let_def float_of_show_py_avg)
qed

text \<open>(C29) Safety of the report file: whenever \<open>main\<close> writes a report, both
  files were read without an exception to a non-empty table and a non-empty tweet list,
  the report computation returned without an exception, the report file could be
  opened, the text written is exactly that report, and the last line printed is the
  confirmation.\<close>

theorem main_writes_report:
  assumes "main s = (out, Some txt)"
  shows "\<exists>kw ts r. snd (read_keywords (keyword_file_name s) (keyword_contents s)) = Inr kw \<and> kw \<noteq> [] \<and>
           snd (read_tweets (tweet_file_name s) (tweet_contents s)) = Inr ts \<and> ts \<noteq> [] \<and>
           make_report_py ts kw = Inr r \<and> report_writable s \<and> txt = report_text r \<and>
           last out = Print (''Wrote report to '' @ report_file_name s)"
  using assms
  by (auto simp: main_def write_report_def split: prod.splits sum.splits if_splits)

end
