(* ===== verification/Spec2Isabelle.thy ===== *)
theory Spec2Isabelle
  imports Prelude PyFloat Scoring Aggregation Readers Program
begin

text \<open>
  \<^bold>\<open>Verification of the tweet sentiment analyser\<close>
  (\<open>src/sentiment_analysis.py\<close>, \<open>src/main.py\<close>).

  \<^bold>\<open>The program.\<close> \<open>main\<close> (\<open>main.py\<close>) asks for three file names, reads a
  keyword file with \<open>read_keywords\<close> (tab-separated keyword and integer weight) and a
  tweet file with \<open>read_tweets\<close> (comma-separated, eleven positional fields, the text
  cleaned on reading by \<open>clean_tweet_text\<close>), stops with a message if either is empty,
  builds a report with \<open>make_report\<close> and writes it with \<open>write_report\<close>; any
  exception escaping the readers or the report computation is caught and printed by
  \<open>main\<close>. \<open>make_report\<close>
  scores every tweet with \<open>calc_sentiment\<close> (the sum of the weights of its
  whitespace-separated words), classifies the score with \<open>classify\<close>, accumulates
  counts, sums, per-engagement totals and per-country sums and counts in one loop, and
  then computes the averages and the five countries of highest average. The module body
  of \<open>main.py\<close> calls \<open>main\<close> twice.

  \<^bold>\<open>Theories.\<close>
  \<^item> \<open>Prelude\<close>: the Python exceptions (\<open>py_error\<close>), results \<open>error + value\<close>
    with exception propagation \<open>py_bind\<close>, indexing \<open>py_index\<close> (\<open>IndexError\<close> out of
    range), the float values \<open>py_float\<close>, \<open>sorted(..., key, reverse=True)\<close> as
    \<open>py_sorted_rev\<close> (CPython reverses, sorts stably, reverses back) with its
    sortedness, stability and equivalence with an ascending sort on the negated key,
    \<open>first_seen\<close> (distinct elements in first-occurrence order), shared lemmas.
  \<^item> \<open>PyString\<close>: the \<open>str\<close> builtins. A Python string is a list of \<open>char\<close> read
    as Latin-1 code points (\<open>of_char c\<close> in 0..255); \<open>py_isalpha\<close>,
    \<open>py_isspace\<close>, \<open>py_lower\<close> are CPython's Unicode tables on that range;
    \<open>py_split_ws\<close> is \<open>str.split()\<close> as CPython's scanning loop; \<open>py_split_sep\<close>,
    \<open>py_strip\<close>, \<open>py_join\<close>, \<open>py_lines\<close> are \<open>str.split(sep)\<close>, \<open>str.strip()\<close>,
    \<open>sep.join\<close> and iteration over a text file. Lemmas: tokens are non-empty and
    space-free, splitting distributes over a space, split/join and lines round trips.
  \<^item> \<open>PyDict\<close>: a dict as an association list in insertion order; \<open>dict_get\<close>
    is \<open>d.get(k, dflt)\<close>, \<open>dict_set\<close> is \<open>d[k] = v\<close>, refined to HOL maps by
    \<open>map_of\<close>.
  \<^item> \<open>PyNum\<close>: \<open>int(s)\<close> and \<open>float(s)\<close> as CPython parses them (whitespace,
    sign, digit groups with single underscores, fraction, exponent, \<open>inf\<close>/\<open>nan\<close>),
    \<open>ValueError\<close> otherwise; \<open>str(n)\<close>; the round trip \<open>int(str(i)) = i\<close>.
  \<^item> \<open>PyFloat\<close>: the float arithmetic of the averages. \<open>binary64\<close> rounds a
    rational to the nearest double (53 bits, ties to even, subnormals), its exponent found
    by \<open>flog2\<close>, a \<open>function\<close> whose termination is proved by a measure;
    \<open>py_truediv\<close> is \<open>a / b\<close> on ints; \<open>py_round2\<close> is \<open>round(x, 2)\<close>
    (the exact binary value rounded half to even, the sign kept) with result type
    \<open>float2\<close>; \<open>py_str_float2\<close> is \<open>str\<close> of the result. Lemmas: the distance
    of \<open>binary64\<close> from its argument, and the division's overflow thresholds.
  \<^item> \<open>Scoring\<close>: \<open>clean_tweet_text\<close> (lines 30--33), \<open>calc_sentiment\<close> (35--38),
    \<open>classify\<close> (42--45, the three result strings as the datatype
    \<open>classification\<close>). Properties C14, C15.
  \<^item> \<open>Tweet\<close>: the dict built by \<open>read_tweets\<close> (lines 62--76) as the record
    \<open>tweet\<close>.
  \<^item> \<open>Aggregation\<close>: \<open>make_report\<close> (lines 90--163). The accumulators are the
    record \<open>report_state\<close>, the loop body \<open>report_step\<close>, the loop \<open>report_loop\<close>
    (a \<open>foldl\<close>), the ranking \<open>top_countries\<close>, the report dict the record
    \<open>report\<close>. An abstract specification (\<open>country_tweets\<close>, \<open>spec_countries\<close>,
    \<open>spec_country_avg\<close>) states what the loop computes without the loop; the
    invariant \<open>report_inv\<close> says the two country dicts agree. \<open>make_report_py\<close>
    is lines 134--161 with their exceptions: each division may raise
    \<open>OverflowError\<close>, in the source's order, and the ranking sorts the countries
    decorated with their computed keys; it refines to \<open>make_report\<close> where nothing
    overflows (\<open>report_overflow\<close>). Properties C1--C13.
  \<^item> \<open>Readers\<close>: \<open>read_keywords\<close> (lines 8--26) and \<open>read_tweets\<close> (49--85)
    over a file given as its contents (\<open>None\<close> when \<open>open\<close> raises \<open>IOError\<close>),
    returning the printed lines and the result; the comprehension and the dict display
    raise at their first failing subexpression in Python's evaluation order. The
    specification's file formats are \<open>keyword_file\<close> and \<open>tweet_csv_line\<close>;
    \<open>tweet_wf\<close> says that no string field of a tweet holds a comma.
    Properties C16--C20, C27, C28.
  \<^item> \<open>Program\<close>: \<open>write_report\<close> (lines 165--186) as its ten output lines, and
    \<open>main\<close> (\<open>main.py\<close> lines 13--36) over a \<open>session\<close> (the names typed at the
    prompts, the input files, whether the report file is writable), returning what is
    printed and what is written; \<open>main_module\<close> is the module body with its two calls.
    Properties C21--C26, C29.
  \<^item> \<open>Spec2Isabelle\<close> (this theory): example data, the specification's worked
    example evaluated on the model, and the witnesses of the properties with
    hypotheses.

  \<^bold>\<open>What the lemmas show.\<close> The report is the declarative specification of the
  tweet list (C2, C3); the classes partition the tweets (C1); the ranking is sorted,
  optimal, bounded and breaks ties by first appearance (C4--C6, C8); the country dicts
  stay consistent, so the sort key never fails (C7); the report computation raises no
  \<open>OverflowError\<close> while the absolute scores sum to less than \<open>2^1023\<close> (C9);
  \<open>NULL\<close> countries are excluded only from the ranking (C10); empty inputs give
  not-available averages (C11, C12); the counts and averages do not depend on the order
  of the tweets (C13). The scorer: the score is additive over whitespace (C14);
  \<open>classify\<close> partitions at zero (C15). The readers: both file formats round-trip
  (C16, C18); a tab-less keyword line and a short tweet line raise \<open>IndexError\<close>
  (C17, C19); a comma in a tweet's text shifts every later field one place to the left
  and silently drops the last one (C20). The program: on well-formed files \<open>main\<close>
  writes exactly the report of the files' contents, or prints the \<open>OverflowError\<close>
  when a division overflows (C21); an unreadable or malformed keyword file stops it with
  the message the code prints (C22, C23); the written counts read back with \<open>int()\<close>
  (C24); an empty group is reported as \<open>NAN\<close> (C25); the average lines of a written
  report read back to the report's averages (C26). The readers' output is well formed:
  the keyword table has distinct, tab-free keys (C27) and no string field of a tweet
  holds a comma (C28). The report file is written only when both readers returned
  non-empty data, the report computation returned a report, and the file was writable;
  what is written is that report's text and the confirmation is the last line printed
  (C29).

  \<^bold>\<open>Numbers.\<close> Python integers are \<open>int\<close>, counts \<open>nat\<close> (they only grow).
  Floats are binary64 values represented by their exact rational value (theory
  \<open>PyFloat\<close>). The true division of two ints is the correctly rounded quotient
  (\<open>py_truediv\<close>), \<open>round(x, 2)\<close> rounds the binary value half to even
  (\<open>py_round2\<close>), and \<open>str\<close> of the result prints the hundredths
  (\<open>py_str_float2\<close>). So the averages of the report, their text and the ranking key
  are those of CPython. The division raises \<open>OverflowError\<close> where the rounded
  quotient reaches \<open>2^1024\<close> (\<open>py_div\<close>); it cannot below \<open>2^1023\<close>
  (\<open>binary64_small\<close>) and must from \<open>2^1025\<close> (\<open>binary64_large\<close>), and the
  example \<open>make_report_overflow_example\<close> reaches it with one keyword weight. One limit
  applies: the text of a rounded average is CPython's only below \<open>2^46\<close> in
  magnitude. A float parsed by \<open>float()\<close> is the exact value of its
  literal; the readers only check that the coordinates parse, and the exact value
  never reaches the report. \<open>'NAN'\<close> is \<open>None\<close>. No loop needs fuel: every loop of the
  program runs over a finite list, and the one recursion of the model that does not,
  the exponent search \<open>flog2\<close>, is a \<open>function\<close> with a termination proof.

  \<^bold>\<open>Not modelled.\<close> Characters above U+00FF (the character tables cover
  Latin-1). The properties that involve the character tables state only what holds
  for every code point: splitting at any character \<open>str.isspace\<close> accepts (C14),
  and that no comma survives cleaning (C28); idempotence of the normaliser, true on
  Latin-1, is not claimed, since \<open>'\<dots>'.lower()\<close> of U+0130 is two code points. Prompting the user and opening files are I/O: the typed names and the file
  contents are the inputs of \<open>main\<close>, and an \<open>IOError\<close> raised after \<open>open\<close>
  succeeds (while reading or writing) is not represented. The shorter or
  exponent-notation text of a rounded average beyond \<open>2^46\<close> in magnitude: it is
  CPython's shortest round-trip \<open>repr\<close>, whose digits there depend on the spacing of
  doubles, and it needs averages far outside what a keyword table produces.
\<close>

section \<open>Example data\<close>

text \<open>Tweets for the examples and witnesses, with the fields \<open>make_report\<close> does
  not read filled in arbitrarily.\<close>

definition mk_tweet :: "string \<Rightarrow> int \<Rightarrow> int \<Rightarrow> string \<Rightarrow> tweet" where
  "mk_tweet txt rt fav c = \<lparr>date = ''11/17/2023'', tweet_text = txt, user = ''u'', retweet = rt,
     favorite = fav, lang = ''en'', country = c, state = ''NULL'', city = ''NULL'', lat = NULL, lon = NULL\<rparr>"

definition example_keywords :: keyword_dict where
  "example_keywords = [(''happy'', 1), (''sad'', -1)]"

definition example_tweets :: "tweet list" where
  "example_tweets = [mk_tweet ''i am happy'' 0 0 ''US'', mk_tweet ''so sad today'' 1 0 ''US'']"

definition six_countries :: "tweet list" where
  "six_countries = [mk_tweet ''good'' 0 0 ''A'', mk_tweet ''good'' 0 0 ''B'', mk_tweet ''good'' 0 0 ''C'',
     mk_tweet ''good'' 0 0 ''D'', mk_tweet ''good'' 0 0 ''E'', mk_tweet ''meh'' 0 0 ''F'']"

definition example_session :: session where
  "example_session = \<lparr>keyword_file_name = ''keywords.tsv'', tweet_file_name = ''tweets.csv'',
     report_file_name = ''report.txt'', keyword_contents = Some (keyword_file example_keywords),
     tweet_contents = Some (concat (map (\<lambda>t. tweet_csv_line t @ [CHR ''\<newline>'']) example_tweets)),
     report_writable = True\<rparr>"

section \<open>The end-to-end example of the specification\<close>

text \<open>The worked example of the specification: keywords \<open>happy: 1\<close>,
  \<open>sad: -1\<close>; the tweets \<open>i am happy\<close> (no engagement) and \<open>so sad today\<close>
  (one retweet), both from \<open>US\<close>. The report has two tweets, one positive and one
  negative, one retweeted tweet with average \<open>-1.0\<close> (the float \<open>round(-1 / 1, 2)\<close>:
  negative, \<open>-100\<close> hundredths), no favourited tweet (average not available),
  overall average \<open>0.0\<close>, and top five \<open>US\<close>.\<close>

theorem spec_example:
  "make_report example_tweets example_keywords =
   \<lparr>rep_avg_favorite = None, rep_avg_retweet = Some (Float2 True (-100)),
    rep_avg_sentiment = Some (Float2 False 0),
    rep_num_tweets = 2, rep_num_favorite = 0, rep_num_retweet = 1, rep_num_positive = 1,
    rep_num_negative = 1, rep_num_neutral = 0, rep_top_five = ''US''\<rparr>"
  by code_simp

text \<open>No division of the report overflows on the example tweets.\<close>

lemma example_no_overflow:
  "\<not> report_overflow (report_loop example_keywords
      (map (\<lambda>t. t\<lparr>tweet_text := clean_tweet_text (tweet_text t)\<rparr>) example_tweets)) (length example_tweets)"
proof -
  define st where "st = report_loop example_keywords
      (map (\<lambda>t. t\<lparr>tweet_text := clean_tweet_text (tweet_text t)\<rparr>) example_tweets)"
  have r: "total_sentiment st = 0 \<and> tot_retweet st = -1 \<and> tot_favorite st = 0 \<and>
      dict_keys (country_sentiment st) = [''US''] \<and> dict_get (country_sentiment st) ''US'' 0 = 0"
    unfolding st_def by code_simp
  have "\<not> report_overflow st (length example_tweets)"
    by (rule no_report_overflow) (use r in simp_all)
  then show ?thesis by (simp add: st_def)
qed

section \<open>Witnesses\<close>

text \<open>Each theorem below applies a property with hypotheses at a concrete input
  where the hypotheses hold.\<close>

theorem top_countries_optimal_witness: "''F'' \<in> set (spec_countries six_countries) \<and>
   ''F'' \<notin> set (top_countries (report_loop [(''good'', 1)] six_countries)) \<and>
   ''A'' \<in> set (top_countries (report_loop [(''good'', 1)] six_countries)) \<and>
   spec_country_avg [(''good'', 1)] six_countries ''F'' \<le> spec_country_avg [(''good'', 1)] six_countries ''A''"
proof -
  have h1: "''F'' \<in> set (spec_countries six_countries)" by code_simp
  have h2: "''F'' \<notin> set (top_countries (report_loop [(''good'', 1)] six_countries))" by code_simp
  have h3: "''A'' \<in> set (top_countries (report_loop [(''good'', 1)] six_countries))" by code_simp
  show ?thesis using h1 h2 h3 top_countries_optimal [OF h1 h2 h3] by simp
qed

theorem report_loop_inv_witness: "report_inv (report_loop example_keywords example_tweets)"
  using report_loop_inv [of example_keywords example_tweets] .

theorem report_step_null_country_witness: "country (mk_tweet ''i am happy'' 0 0 ''NULL'') = ''NULL'' \<and>
  country_sentiment (report_step example_keywords report_init (mk_tweet ''i am happy'' 0 0 ''NULL'')) = [] \<and>
  num_positive (report_step example_keywords report_init (mk_tweet ''i am happy'' 0 0 ''NULL''))
   + num_negative (report_step example_keywords report_init (mk_tweet ''i am happy'' 0 0 ''NULL''))
   + num_neutral (report_step example_keywords report_init (mk_tweet ''i am happy'' 0 0 ''NULL'')) = 1"
proof -
  have h: "country (mk_tweet ''i am happy'' 0 0 ''NULL'') = ''NULL''" by (simp add: mk_tweet_def)
  show ?thesis using h report_step_null_country [OF h, of example_keywords report_init]
    by (simp add: report_init_def)
qed

theorem make_report_no_country_witness:
  "\<not> has_country (country (mk_tweet ''a'' 0 0 ''NULL'')) \<and> \<not> has_country (country (mk_tweet ''b'' 0 0 '''')) \<and>
  rep_top_five (make_report [mk_tweet ''a'' 0 0 ''NULL'', mk_tweet ''b'' 0 0 ''''] example_keywords) = []"
proof -
  have h: "\<forall>t \<in> set [mk_tweet ''a'' 0 0 ''NULL'', mk_tweet ''b'' 0 0 ''''].  \<not> has_country (country t)"
    by (simp add: mk_tweet_def has_country_def)
  show ?thesis using h make_report_no_country [OF h] by simp
qed

theorem make_report_perm_witness: "mset example_tweets = mset (rev example_tweets) \<and>
  (make_report example_tweets example_keywords)\<lparr>rep_top_five := []\<rparr> =
  (make_report (rev example_tweets) example_keywords)\<lparr>rep_top_five := []\<rparr>"
  using make_report_perm [of example_tweets "rev example_tweets" example_keywords] by simp

theorem calc_sentiment_append_space_witness: "py_isspace (CHR '' '') \<and>
  calc_sentiment (''happy'' @ CHR '' '' # ''sad'') example_keywords =
  calc_sentiment ''happy'' example_keywords + calc_sentiment ''sad'' example_keywords"
proof -
  have h: "py_isspace (CHR '' '')" by (simp add: py_isspace_def)
  show ?thesis
    using h calc_sentiment_append_space [OF h, of "''happy''" "''sad''" example_keywords] by blast
qed

theorem read_keywords_roundtrip_witness:
  "read_keywords ''keywords.tsv'' (Some (keyword_file example_keywords)) = ([], Inr example_keywords)"
proof -
  have h1: "distinct (map fst example_keywords)" by (simp add: example_keywords_def)
  have h2: "\<forall>k \<in> set (map fst example_keywords). TAB \<notin> set k \<and> CHR ''\<newline>'' \<notin> set k"
    by code_simp
  show ?thesis using read_keywords_roundtrip [OF h1 h2] .
qed

theorem keyword_lines_no_tab_witness:
  "TAB \<notin> set ''\<newline>'' \<and> keyword_lines [] [''\<newline>''] = Inl IndexError"
proof -
  have h: "TAB \<notin> set ''\<newline>''" using tab_ne by simp
  show ?thesis using h keyword_lines_no_tab [OF h, of "[]" "[]"] by simp
qed

theorem read_tweets_roundtrip_witness:
  "read_tweets ''tweets.csv'' (Some (concat (map (\<lambda>t. tweet_csv_line t @ [CHR ''\<newline>'']) example_tweets))) =
   ([], Inr (map (\<lambda>t. t\<lparr>tweet_text := clean_tweet_text (tweet_text t)\<rparr>) example_tweets))"
proof -
  have h: "\<forall>t \<in> set example_tweets. csv_safe t"
    by (simp add: example_tweets_def mk_tweet_def csv_safe_def py_isspace_def)
  show ?thesis using read_tweets_roundtrip [OF h] .
qed

theorem parse_tweet_short_line_witness:
  "length (py_split_sep (CHR '','') (py_strip ''a,b'')) < 4 \<and> parse_tweet ''a,b'' = Inl IndexError"
proof -
  have h: "length (py_split_sep (CHR '','') (py_strip ''a,b'')) < 4" by code_simp
  show ?thesis using h parse_tweet_short_line [OF h] by simp
qed

theorem main_end_to_end_witness:
  "main example_session = ([Print ''Wrote report to report.txt''],
     Some (report_text (make_report (map (\<lambda>t. t\<lparr>tweet_text := clean_tweet_text (tweet_text t)\<rparr>)
       example_tweets) example_keywords)))"
proof -
  have h1: "example_keywords \<noteq> []" and h2: "distinct (map fst example_keywords)"
    and h4: "example_tweets \<noteq> []"
    by (simp_all add: example_keywords_def example_tweets_def)
  have h3: "\<forall>k \<in> set (map fst example_keywords). TAB \<notin> set k \<and> CHR ''\<newline>'' \<notin> set k"
    by code_simp
  have h5: "\<forall>t \<in> set example_tweets. csv_safe t"
    by (simp add: example_tweets_def mk_tweet_def csv_safe_def py_isspace_def)
  have h6: "keyword_contents example_session = Some (keyword_file example_keywords)"
    and h7: "tweet_contents example_session =
      Some (concat (map (\<lambda>t. tweet_csv_line t @ [CHR ''\<newline>'']) example_tweets))"
    and h8: "report_writable example_session"
    by (simp_all add: example_session_def)
  show ?thesis
    using main_end_to_end [OF h1 h2 h3 h4 h5 h6 h7 h8] example_no_overflow
    by (simp add: example_session_def Let_def)
qed

theorem main_keywords_unreadable_witness:
  "main (example_session\<lparr>keyword_contents := None\<rparr>) =
   ([Print ''Could not open file keywords.tsv!'', PrintExc (PyException empty_input_msg)], None)"
proof -
  have h: "keyword_contents (example_session\<lparr>keyword_contents := None\<rparr>) = None" by simp
  show ?thesis using main_keywords_unreadable [OF h]
    by (simp add: example_session_def could_not_open_def)
qed

theorem main_keyword_line_error_witness:
  "main (example_session\<lparr>keyword_contents := Some ''\<newline>''\<rparr>) = ([PrintExc IndexError], None)"
proof -
  have h1: "keyword_contents (example_session\<lparr>keyword_contents := Some ''\<newline>''\<rparr>) =
      Some ([] @ CHR ''\<newline>'' # [])" by simp
  have h2: "TAB \<notin> set []" and h3: "CHR ''\<newline>'' \<notin> set []" by simp_all
  show ?thesis using main_keyword_line_error [OF h1 h2 h3] .
qed

theorem report_counts_readable_witness:
  "map (\<lambda>i. py_int_of_str (report_field (py_lines (report_text
      (make_report example_tweets example_keywords)) ! i))) [1, 2, 3, 4, 5, 7] =
   [Inr 2, Inr 1, Inr 1, Inr 0, Inr 0, Inr 1]"
proof -
  have h2: "CHR ''\<newline>'' \<notin> set (rep_top_five (make_report example_tweets example_keywords))"
    by code_simp
  have r: "map (\<lambda>n. Inr (int n) :: py_error + int)
      [rep_num_tweets (make_report example_tweets example_keywords),
       rep_num_positive (make_report example_tweets example_keywords),
       rep_num_negative (make_report example_tweets example_keywords),
       rep_num_neutral (make_report example_tweets example_keywords),
       rep_num_favorite (make_report example_tweets example_keywords),
       rep_num_retweet (make_report example_tweets example_keywords)] =
      [Inr 2, Inr 1, Inr 1, Inr 0, Inr 0, Inr 1]"
    by code_simp
  show ?thesis using report_counts_readable [OF h2] r by simp
qed

theorem report_nan_favorite_witness:
  "report_lines (make_report example_tweets example_keywords) ! 6 =
   ''Average sentiment of favorited tweets: NAN''"
proof -
  have h: "\<forall>t \<in> set example_tweets. favorite t \<le> 0"
    by (simp add: example_tweets_def mk_tweet_def)
  show ?thesis using report_nan_favorite [OF h] .
qed

theorem report_avgs_readable_witness:
  "map (\<lambda>i. py_float_of_str (report_field (py_lines (report_text (make_report example_tweets example_keywords)) ! i)))
     [0, 6, 8] = [Inr (FloatNum 0), Inr FloatNaN, Inr (FloatNum (-1))]"
proof -
  have h: "CHR ''\<newline>'' \<notin> set (rep_top_five (make_report example_tweets example_keywords))"
    by code_simp
  have r: "map (\<lambda>a. Inr (case a of None \<Rightarrow> FloatNaN | Some f \<Rightarrow> FloatNum (of_int (f2_cents f) / 100)) :: py_error + py_float)
      [rep_avg_sentiment (make_report example_tweets example_keywords),
       rep_avg_favorite (make_report example_tweets example_keywords),
       rep_avg_retweet (make_report example_tweets example_keywords)] =
      [Inr (FloatNum 0), Inr FloatNaN, Inr (FloatNum (-1))]"
    by code_simp
  show ?thesis using report_avgs_readable [OF h] r by simp
qed



theorem make_report_py_no_overflow_witness:
  "sum_list (map (\<lambda>t. \<bar>calc_sentiment (tweet_text t) example_keywords\<bar>) example_tweets) < 2 ^ 1023 \<and>
   make_report_py example_tweets example_keywords = Inr (make_report example_tweets example_keywords)"
proof -
  have e: "sum_list (map (\<lambda>t. \<bar>calc_sentiment (tweet_text t) example_keywords\<bar>) example_tweets) = 2"
    by code_simp
  have h: "sum_list (map (\<lambda>t. \<bar>calc_sentiment (tweet_text t) example_keywords\<bar>) example_tweets) < 2 ^ 1023"
    by (simp add: e)
  show ?thesis using h make_report_py_no_overflow [OF h] by simp
qed

theorem parse_tweet_comma_shift_witness:
  "csv_safe (mk_tweet ''good'' 0 0 ''US'') \<and> CHR '','' \<notin> set ''bad'' \<and>
   parse_tweet (tweet_csv_line ((mk_tweet ''good'' 0 0 ''US'')\<lparr>tweet_text := ''good'' @ CHR '','' # ''bad''\<rparr>)) =
     Inl ValueError"
proof -
  have h1: "csv_safe ((mk_tweet ''good'' 0 0 ''US'')\<lparr>tweet_text := ''good''\<rparr>)"
    by (simp add: mk_tweet_def csv_safe_def py_isspace_def)
  have h2: "CHR '','' \<notin> set ''bad''" by simp
  have u: "py_int_of_str ''u'' = Inl ValueError" by code_simp
  show ?thesis
    using h1 h2 parse_tweet_comma_shift [OF h1 h2] u by (simp add: mk_tweet_def)
qed

theorem main_writes_report_witness:
  "main example_session = ([Print ''Wrote report to report.txt''],
     Some (report_text (make_report (map (\<lambda>t. t\<lparr>tweet_text := clean_tweet_text (tweet_text t)\<rparr>)
       example_tweets) example_keywords))) \<and>
   (\<exists>kw ts r. snd (read_keywords ''keywords.tsv'' (keyword_contents example_session)) = Inr kw \<and> kw \<noteq> [] \<and>
     snd (read_tweets ''tweets.csv'' (tweet_contents example_session)) = Inr ts \<and> ts \<noteq> [] \<and>
     make_report_py ts kw = Inr r \<and> report_writable example_session \<and>
     Some (report_text (make_report (map (\<lambda>t. t\<lparr>tweet_text := clean_tweet_text (tweet_text t)\<rparr>)
       example_tweets) example_keywords)) = Some (report_text r) \<and>
     last [Print ''Wrote report to report.txt''] = Print (''Wrote report to report.txt''))"
proof -
  have k: "read_keywords (keyword_file_name example_session) (keyword_contents example_session) =
      ([], Inr example_keywords)" by code_simp
  have t: "read_tweets (tweet_file_name example_session) (tweet_contents example_session) =
      ([], Inr (map (\<lambda>t. t\<lparr>tweet_text := clean_tweet_text (tweet_text t)\<rparr>) example_tweets))" by code_simp
  have ne: "example_keywords \<noteq> []" "map (\<lambda>t. t\<lparr>tweet_text := clean_tweet_text (tweet_text t)\<rparr>) example_tweets \<noteq> []"
    by (simp_all add: example_keywords_def example_tweets_def)
  have w: "report_writable example_session" by (simp add: example_session_def)
  have h: "main example_session = ([Print ''Wrote report to report.txt''],
     Some (report_text (make_report (map (\<lambda>t. t\<lparr>tweet_text := clean_tweet_text (tweet_text t)\<rparr>)
       example_tweets) example_keywords)))"
    using main_reads_ok [OF k ne(1) t ne(2) w] example_no_overflow by (simp add: example_session_def)
  show ?thesis using h main_writes_report [OF h] by (simp add: example_session_def)
qed

text \<open>The overflow path is reachable: one tweet whose only word has weight
  \<open>2^1025\<close> makes the overall average overflow, and the report computation raises
  \<open>OverflowError\<close>.\<close>

theorem make_report_overflow_example:
  "make_report_py [mk_tweet ''happy'' 0 0 ''US''] [(''happy'', 2 ^ 1025)] = Inl OverflowError"
proof -
  have w: "py_split_ws ''happy'' = [''happy'']" by code_simp
  have t: "total_sentiment (report_loop [(''happy'', 2 ^ 1025)] [mk_tweet ''happy'' 0 0 ''US'']) = 2 ^ 1025"
    by (simp add: report_loop_fields calc_sentiment_def mk_tweet_def w dict_get_def)
  have "2 ^ 1024 \<le> \<bar>py_truediv (2 ^ 1025) 1\<bar>"
    unfolding py_truediv_def by (rule binary64_large) simp
  then have "report_overflow (report_loop [(''happy'', 2 ^ 1025)] [mk_tweet ''happy'' 0 0 ''US'']) 1"
    using t by (simp add: report_overflow_def avg_overflow_def)
  then show ?thesis by (simp add: make_report_py_eq)
qed

end
